theory Spec2Isabelle
  imports Complex_Main
begin

unbundle bit_operations_syntax

section \<open>Certificates, keys, errors\<close>

text \<open>
  The bundler of \<^verbatim>\<open>bundler/bundler.go\<close> works on parsed X.509 certificates. A
  certificate is a record of the fields the bundler reads. Byte slices are strings:
  the source itself converts signatures with \<^verbatim>\<open>string(cert.Signature)\<close> to use
  them as map keys, next to URLs in the same map. Times are integers, in
  nanoseconds.
\<close>

datatype SignatureAlgorithm =
    UnknownSignatureAlgorithm | MD2WithRSA | MD5WithRSA | SHA1WithRSA
  | SHA256WithRSA | SHA384WithRSA | SHA512WithRSA | DSAWithSHA1 | DSAWithSHA256
  | ECDSAWithSHA1 | ECDSAWithSHA256 | ECDSAWithSHA384 | ECDSAWithSHA512

datatype PublicKeyAlgorithm = UnknownPublicKeyAlgorithm | RSA | DSA | ECDSA

datatype Curve = P224 | P256 | P384 | P521

text \<open>
  \<^verbatim>\<open>cert.PublicKey\<close> and the \<^verbatim>\<open>key\<close> argument of \<^verbatim>\<open>Bundle\<close> are values of type
  \<^verbatim>\<open>interface{}\<close>; the source inspects them with type assertions. An RSA key carries
  its modulus N, an ECDSA key its curve and the point (X, Y); a private key embeds
  the public key.
\<close>

datatype PublicKey = RSAPublicKey int | ECDSAPublicKey Curve int int | OtherPublicKey

datatype PrivateKey = RSAPrivateKey int | ECDSAPrivateKey Curve int int | OtherPrivateKey

record Certificate =
  Raw :: string
  Signature :: string
  SignatureAlgorithm :: SignatureAlgorithm
  PublicKeyAlgorithm :: PublicKeyAlgorithm
  PublicKey :: PublicKey
  SubjectCommonName :: string
  IssuerCommonName :: string
  NotAfter :: int
  SubjectKeyId :: string
  IssuingCertificateURL :: "string list"

datatype Category = PrivateKeyError | CertificateError

datatype Reason = KeyMismatch | NotRSAOrECC | SelfSigned | VerifyFailed

text \<open>
  Errors are values. \<open>Error c r e\<close> is \<^verbatim>\<open>errors.New(c, r, e)\<close>;
  \<open>UnknownAuthorityError\<close> is \<^verbatim>\<open>x509.UnknownAuthorityError{}\<close>; \<open>VerifierError\<close>
  is any other error of the X.509 verifier; \<open>IOError\<close> is a failure of the file
  system; \<open>Panic\<close> is a run-time panic of the Go program.
\<close>

datatype go_error =
    UnknownAuthorityError
  | VerifierError string
  | IOError string
  | Error Category Reason "go_error option"
  | Panic string

section \<open>The bundler and its environment\<close>

record Bundler =
  RootPool :: "Certificate list"
  IntermediatePool :: "Certificate list"
  KnownIssuers :: "string set"

text \<open>
  The bundler also writes files into the stash directory. \<open>StashWrites\<close> is the log
  of the calls of \<^verbatim>\<open>ioutil.WriteFile\<close>, oldest first: the name of the fetched
  intermediate (the file is that name under \<^verbatim>\<open>IntermediateStash\<close>, with the clock's
  \<^verbatim>\<open>UnixNano\<close> appended) and the DER bytes that are PEM-encoded into it.
\<close>

record World = Bundler +
  StashWrites :: "(string \<times> string) list"

text \<open>
  \<^verbatim>\<open>CertPool.AddCert\<close> of the Go library appends a certificate unless an equal one
  (equal raw bytes) is already in the pool.
\<close>

definition AddCert :: "Certificate list \<Rightarrow> Certificate \<Rightarrow> Certificate list" where
  "AddCert pool c = (if Raw c \<in> Raw ` set pool then pool else pool @ [c])"

text \<open>
  A platform of package \<^verbatim>\<open>ubiquity\<close>, with the fields the package's tests set
  (\<^verbatim>\<open>Platform{Name: ..., Weight: ..., HashAlgo: "SHA2", KeyAlgo: "ECDSA256",
  KeyStoreFile: ...}\<close>). \<open>KeyStore\<close> is the parsed key-store file: the signatures of
  the roots the platform trusts.
\<close>

record Platform =
  Name :: string
  Weight :: int
  HashAlgo :: string
  KeyAlgo :: string
  KeyStore :: "string set"

text \<open>
  The result of bundling. \<^verbatim>\<open>Hostnames\<close> is filled by \<^verbatim>\<open>buildHostnames\<close> from the
  leaf's names, which the bundler does not read again; it is left out.
\<close>

record BundleStatus =
  IsRebundled :: bool
  ExpiringSKIs :: "string list"
  Untrusted :: "string list"
  Messages :: "string list"
  Code :: int

record Bundle =
  Chain :: "Certificate list"
  Cert :: Certificate
  Key :: "PrivateKey option"
  Issuer :: string
  Subject :: string
  Expires :: "int option"
  Status :: BundleStatus

text \<open>
  What the bundler takes from outside the repository is a parameter:
  \<^item> \<open>Verify roots intermediates c\<close> is \<^verbatim>\<open>c.Verify(b.VerifyOptions())\<close> of
    \<^verbatim>\<open>crypto/x509\<close>: the chains found, each from \<open>c\<close> to a root, or an error;
  \<^item> \<open>CheckSignatureFrom c p\<close> holds when \<^verbatim>\<open>c.CheckSignatureFrom(p)\<close> returns nil;
  \<^item> \<open>Remote\<close> lists the certificates that \<^verbatim>\<open>fetchRemoteCertificate\<close> can fetch
    and parse, by URL; every other URL fails. The list is finite: the issuer
    graph reachable by AIA fetches is;
  \<^item> \<open>Base\<close> is \<^verbatim>\<open>filepath.Base\<close>;
  \<^item> \<open>Now\<close> is \<^verbatim>\<open>time.Now()\<close>, in nanoseconds;
  \<^item> \<open>MkdirStash\<close> is the error, if any, of creating the stash directory when it
    does not exist;
  \<^item> \<open>Platforms\<close> is the global \<^verbatim>\<open>ubiquity.Platforms\<close>;
  \<^item> \<open>hashPriority\<close>, \<open>keyAlgoPriority\<close> and \<open>CompareExpiryUbiquity\<close> are the
    functions of package \<^verbatim>\<open>ubiquity\<close> of which the specification gives no values;
  \<^item> \<open>SHA1Ubiquity\<close>, \<open>SHA2Ubiquity\<close>, \<open>UnknownHashUbiquity\<close>, \<open>RSAUbiquity\<close>,
    \<open>ECDSA256Ubiquity\<close>, \<open>ECDSA384Ubiquity\<close>, \<open>ECDSA521Ubiquity\<close> and
    \<open>UnknownAlgoUbiquity\<close> are the ubiquity ranks, constants of package
    \<^verbatim>\<open>ubiquity\<close>. The specification numbers them (SHA1 = 1, SHA2 = 2, Unknown = 0;
    RSA = 100, P-256 = 2, P-384 = 1, P-521 = 0, other = 0), and with these numbers
    the package's own tests fail: \<^verbatim>\<open>TestChainHashUbiquity\<close> wants the chain of
    \<^verbatim>\<open>rsa1024sha1.pem\<close> and \<^verbatim>\<open>rsa2048sha2.pem\<close> to have the hash ubiquity of the
    second, so SHA-1 ranks no lower than SHA-2, and \<^verbatim>\<open>TestCertKeyAlgoUbiquity\<close> wants
    P-256 and P-384 to rank each no lower than the other. The tests are the
    source, so the numbers are left open.
\<close>

record Env =
  Verify :: "Certificate list \<Rightarrow> Certificate list \<Rightarrow> Certificate
               \<Rightarrow> go_error + Certificate list list"
  CheckSignatureFrom :: "Certificate \<Rightarrow> Certificate \<Rightarrow> bool"
  Remote :: "(string \<times> Certificate) list"
  Base :: "string \<Rightarrow> string"
  Now :: int
  MkdirStash :: "go_error option"
  Platforms :: "Platform list"
  hashPriority :: "Certificate \<Rightarrow> int"
  keyAlgoPriority :: "Certificate \<Rightarrow> int"
  CompareExpiryUbiquity :: "Certificate list \<Rightarrow> Certificate list \<Rightarrow> int"
  SHA1Ubiquity :: int
  SHA2Ubiquity :: int
  UnknownHashUbiquity :: int
  RSAUbiquity :: int
  ECDSA256Ubiquity :: int
  ECDSA384Ubiquity :: int
  ECDSA521Ubiquity :: int
  UnknownAlgoUbiquity :: int

definition VerifyWith :: "Env \<Rightarrow> 'a Bundler_scheme \<Rightarrow> Certificate
    \<Rightarrow> go_error + Certificate list list" where
  "VerifyWith env b c = Verify env (RootPool b) (IntermediatePool b) c"

section \<open>Verifying a partial chain\<close>

record fetchedIntermediate =
  Cert :: Certificate
  Name :: string

definition isSelfSigned :: "Env \<Rightarrow> Certificate \<Rightarrow> bool" where
  "isSelfSigned env cert = CheckSignatureFrom env cert cert"

definition isChainRootNode :: "Env \<Rightarrow> Certificate \<Rightarrow> bool" where
  "isChainRootNode env cert = (if isSelfSigned env cert then True else False)"

text \<open>
  The loop of \<^verbatim>\<open>verifyChain\<close> over \<^verbatim>\<open>vchain = chain[i:]\<close>. It returns the verdict
  and the bundler as the loop leaves it: certificates admitted before a failure
  stay admitted.
\<close>

fun verifyChain_loop :: "Env \<Rightarrow> fetchedIntermediate list \<Rightarrow> World
    \<Rightarrow> fetchedIntermediate list \<Rightarrow> bool \<times> World" where
  "verifyChain_loop env chain b [] = (True, b)"
| "verifyChain_loop env chain b (cert # vchain) =
    (if Signature (Cert cert) \<in> KnownIssuers b then verifyChain_loop env chain b vchain
     else if isl (VerifyWith env b (Cert cert)) then (False, b)
     else if length chain = length (cert # vchain) \<and> isChainRootNode env (Cert cert)
       then verifyChain_loop env chain b vchain
     else
       let b1 = b\<lparr>IntermediatePool := AddCert (IntermediatePool b) (Cert cert)\<rparr> in
       if Name cert = [] then verifyChain_loop env chain b1 vchain
       else verifyChain_loop env chain
              (b1\<lparr>KnownIssuers := insert (Signature (Cert cert)) (KnownIssuers b1),
                  StashWrites := StashWrites b1 @ [(Name cert, Raw (Cert cert))]\<rparr>)
              vchain)"

definition verifyChain :: "Env \<Rightarrow> World \<Rightarrow> fetchedIntermediate list \<Rightarrow> bool \<times> World" where
  "verifyChain env b chain = verifyChain_loop env chain b chain"

section \<open>The AIA walk\<close>

definition fetchRemoteCertificate :: "Env \<Rightarrow> string \<Rightarrow> fetchedIntermediate option" where
  "fetchRemoteCertificate env certURL =
     (case map_of (Remote env) certURL of
        None \<Rightarrow> None
      | Some crt \<Rightarrow> Some \<lparr>Cert = crt, Name = Base env certURL\<rparr>)"

text \<open>
  The name under which a certificate supplied by the caller is stashed: its common
  name without periods and spaces, with \<^verbatim>\<open>.crt\<close> appended; the leaf (index 0) has
  no name.
\<close>

definition stashName :: "Certificate \<Rightarrow> string" where
  "stashName cert =
     filter (\<lambda>ch. ch \<noteq> CHR '' '') (filter (\<lambda>ch. ch \<noteq> CHR ''.'') (SubjectCommonName cert))
       @ ''.crt''"

fun initialChain :: "nat \<Rightarrow> Certificate list \<Rightarrow> fetchedIntermediate list
    \<Rightarrow> fetchedIntermediate list" where
  "initialChain i [] chain = chain"
| "initialChain i (cert # certs) chain =
     initialChain (Suc i) certs
       (\<lparr>Cert = cert, Name = (if i > 0 then stashName cert else [])\<rparr> # chain)"

text \<open>
  The state of the walk: the bundler, the map \<^verbatim>\<open>seen\<close> (URLs and signatures in one
  map), the counter \<^verbatim>\<open>foundChains\<close> and the reversed partial chain.
\<close>

record Walk =
  walk_b :: World
  walk_seen :: "string set"
  walk_foundChains :: nat
  walk_chain :: "fetchedIntermediate list"

text \<open>
  The inner loop over \<^verbatim>\<open>current.Cert.IssuingCertificateURL\<close>: the first URL that
  is unseen, can be fetched and serves a certificate with an unseen signature.
\<close>

fun walkIssuers :: "Env \<Rightarrow> string set \<Rightarrow> string list
    \<Rightarrow> (string \<times> fetchedIntermediate) option" where
  "walkIssuers env seen [] = None"
| "walkIssuers env seen (url # urls) =
     (if url \<in> seen then walkIssuers env seen urls
      else case fetchRemoteCertificate env url of
             None \<Rightarrow> walkIssuers env seen urls
           | Some crt \<Rightarrow>
               if Signature (Cert crt) \<in> seen then walkIssuers env seen urls
               else Some (url, crt))"

text \<open>One iteration of the outer loop, on a non-empty chain.\<close>

definition fetchStep :: "Env \<Rightarrow> Walk \<Rightarrow> Walk" where
  "fetchStep env w =
     (let current = hd (walk_chain w);
          (ok, b') = verifyChain env (walk_b w) (walk_chain w)
      in if ok
         then w\<lparr>walk_b := b', walk_foundChains := walk_foundChains w + 1,
                walk_chain := tl (walk_chain w)\<rparr>
         else case walkIssuers env (walk_seen w) (IssuingCertificateURL (Cert current)) of
                None \<Rightarrow> w\<lparr>walk_b := b', walk_chain := tl (walk_chain w)\<rparr>
              | Some (url, crt) \<Rightarrow>
                  w\<lparr>walk_b := b',
                    walk_seen := insert (Signature (Cert crt)) (insert url (walk_seen w)),
                    walk_chain := crt # walk_chain w\<rparr>)"

text \<open>
  The outer loop. It is written \<^verbatim>\<open>for { ... }\<close> in the source and leaves only
  through the return on the empty chain; a walk that never returns has the value
  \<open>None\<close>.
\<close>

partial_function (option) fetchLoop :: "Env \<Rightarrow> Walk \<Rightarrow> (go_error option \<times> Walk) option" where
  "fetchLoop env w =
     (if length (walk_chain w) = 0
      then Some (if walk_foundChains w = 0 then Some UnknownAuthorityError else None, w)
      else fetchLoop env (fetchStep env w))"

declare fetchLoop.simps [code]

definition fetchIntermediates :: "Env \<Rightarrow> World \<Rightarrow> Certificate list
    \<Rightarrow> (go_error option \<times> World) option" where
  "fetchIntermediates env b certs =
     (case MkdirStash env of
        Some e \<Rightarrow> Some (Some e, b)
      | None \<Rightarrow>
          map_option (\<lambda>(err, w). (err, walk_b w))
            (fetchLoop env \<lparr>walk_b = b, walk_seen = Signature ` set certs,
                            walk_foundChains = 0, walk_chain = initialChain 0 certs []\<rparr>))"

section \<open>Package ubiquity\<close>

text \<open>
  Package \<^verbatim>\<open>ubiquity\<close> is used by the bundler, and only its tests are among the
  sources. Its functions are written here from the specification, its names from
  the tests and from the calls in \<^verbatim>\<open>bundler.go\<close>.
\<close>

text \<open>Modelled from the spec: \<^verbatim>\<open>hashUbiquity\<close>, package \<^verbatim>\<open>ubiquity\<close> being absent:
  "hashUbiquity: { SHA1 = ..., SHA2 = ..., Unknown = ... } derived from the
  certificate's SignatureAlgorithm". A signature algorithm has one of three
  hashes, and the rank of the hash is the environment's.\<close>

datatype Hash = HashSHA1 | HashSHA2 | HashUnknown

fun hashOf :: "SignatureAlgorithm \<Rightarrow> Hash" where
  "hashOf SHA1WithRSA = HashSHA1"
| "hashOf DSAWithSHA1 = HashSHA1"
| "hashOf ECDSAWithSHA1 = HashSHA1"
| "hashOf SHA256WithRSA = HashSHA2"
| "hashOf SHA384WithRSA = HashSHA2"
| "hashOf SHA512WithRSA = HashSHA2"
| "hashOf DSAWithSHA256 = HashSHA2"
| "hashOf ECDSAWithSHA256 = HashSHA2"
| "hashOf ECDSAWithSHA384 = HashSHA2"
| "hashOf ECDSAWithSHA512 = HashSHA2"
| "hashOf _ = HashUnknown"

fun hashRank :: "Env \<Rightarrow> Hash \<Rightarrow> int" where
  "hashRank env HashSHA1 = SHA1Ubiquity env"
| "hashRank env HashSHA2 = SHA2Ubiquity env"
| "hashRank env HashUnknown = UnknownHashUbiquity env"

definition hashUbiquity :: "Env \<Rightarrow> Certificate \<Rightarrow> int" where
  "hashUbiquity env cert = hashRank env (hashOf (SignatureAlgorithm cert))"

text \<open>Modelled from the spec: \<^verbatim>\<open>keyAlgoUbiquity\<close>, package \<^verbatim>\<open>ubiquity\<close> being absent:
  "keyAlgoUbiquity: { RSA (any size \<ge> 1024) = ..., ECDSA P-256 = ...,
  ECDSA P-384 = ..., ECDSA P-521 = ..., other = ... }", with the environment's
  ranks. An RSA key has at least 1024 bits when its modulus is at least
  \<open>2 ^ 1023\<close>.\<close>

fun keyAlgoUbiquityOf :: "Env \<Rightarrow> PublicKey \<Rightarrow> int" where
  "keyAlgoUbiquityOf env (RSAPublicKey n) =
     (if 2 ^ 1023 \<le> n then RSAUbiquity env else UnknownAlgoUbiquity env)"
| "keyAlgoUbiquityOf env (ECDSAPublicKey P256 x y) = ECDSA256Ubiquity env"
| "keyAlgoUbiquityOf env (ECDSAPublicKey P384 x y) = ECDSA384Ubiquity env"
| "keyAlgoUbiquityOf env (ECDSAPublicKey P521 x y) = ECDSA521Ubiquity env"
| "keyAlgoUbiquityOf env _ = UnknownAlgoUbiquity env"

definition keyAlgoUbiquity :: "Env \<Rightarrow> Certificate \<Rightarrow> int" where
  "keyAlgoUbiquity env cert = keyAlgoUbiquityOf env (PublicKey cert)"

text \<open>Modelled from the spec: \<^verbatim>\<open>ChainHashUbiquity\<close> and \<^verbatim>\<open>ChainKeyAlgoUbiquity\<close>,
  package \<^verbatim>\<open>ubiquity\<close> being absent: "minimum hashUbiquity over chain members",
  "minimum keyAlgoUbiquity over chain members". The specification gives the
  minimum over no member no value, and neither does \<open>min_list\<close>.\<close>

definition ChainHashUbiquity :: "Env \<Rightarrow> Certificate list \<Rightarrow> int" where
  "ChainHashUbiquity env chain = min_list (map (hashUbiquity env) chain)"

definition ChainKeyAlgoUbiquity :: "Env \<Rightarrow> Certificate list \<Rightarrow> int" where
  "ChainKeyAlgoUbiquity env chain = min_list (map (keyAlgoUbiquity env) chain)"

text \<open>
  What the tests of the package ask of the ranks: \<^verbatim>\<open>TestChainHashUbiquity\<close>,
  \<^verbatim>\<open>TestCertKeyAlgoUbiquity\<close> and \<^verbatim>\<open>TestChainKeyAlgoUbiquity\<close>.
\<close>

definition ranksPassTests :: "Env \<Rightarrow> bool" where
  "ranksPassTests env \<longleftrightarrow>
     SHA2Ubiquity env \<le> SHA1Ubiquity env
     \<and> ECDSA256Ubiquity env \<le> RSAUbiquity env
     \<and> ECDSA384Ubiquity env \<le> ECDSA256Ubiquity env
     \<and> ECDSA256Ubiquity env \<le> ECDSA384Ubiquity env"

text \<open>Go's integer division truncates towards zero.\<close>

definition quot :: "int \<Rightarrow> int \<Rightarrow> int" where
  "quot a b = sgn a * sgn b * (\<bar>a\<bar> div \<bar>b\<bar>)"

definition rem :: "int \<Rightarrow> int \<Rightarrow> int" where
  "rem a b = a - b * quot a b"

text \<open>Modelled from the spec: \<^verbatim>\<open>HashPriority\<close>, \<^verbatim>\<open>KeyAlgoPriority\<close> and
  \<^verbatim>\<open>ChainExpiry\<close>, package \<^verbatim>\<open>ubiquity\<close> being absent: "arithmetic mean (integer
  division) of per-cert priorities", "minimum NotAfter over chain members". The
  per-certificate priorities are parameters.\<close>

definition HashPriority :: "Env \<Rightarrow> Certificate list \<Rightarrow> int" where
  "HashPriority env chain = quot (sum_list (map (hashPriority env) chain)) (int (length chain))"

definition KeyAlgoPriority :: "Env \<Rightarrow> Certificate list \<Rightarrow> int" where
  "KeyAlgoPriority env chain =
     quot (sum_list (map (keyAlgoPriority env) chain)) (int (length chain))"

definition ChainExpiry :: "Certificate list \<Rightarrow> int" where
  "ChainExpiry chain = min_list (map NotAfter chain)"

text \<open>Modelled from the spec: the platform model, package \<^verbatim>\<open>ubiquity\<close> being absent.
  A platform trusts a root whose signature is in its key store ("the raw
  certificate signature bytes suffice"); its required hash and key algorithm,
  named as in the tests, are compared by their ubiquity ranks;
  "UntrustedPlatforms(root) = names of all platforms whose trust store lacks
  root"; "CrossPlatformUbiquity(chain) = sum of weights of platforms P such that
  P trusts the chain's root AND P's required hash algo \<le> ChainHashUbiquity(chain)
  AND P's required key algo \<le> ChainKeyAlgoUbiquity(chain)".\<close>

definition Trust :: "Platform \<Rightarrow> Certificate \<Rightarrow> bool" where
  "Trust p rootCert = (Signature rootCert \<in> KeyStore p)"

definition platformHashUbiquity :: "Env \<Rightarrow> Platform \<Rightarrow> int" where
  "platformHashUbiquity env p =
     (if HashAlgo p = ''SHA1'' then SHA1Ubiquity env
      else if HashAlgo p = ''SHA2'' then SHA2Ubiquity env
      else UnknownHashUbiquity env)"

definition platformKeyAlgoUbiquity :: "Env \<Rightarrow> Platform \<Rightarrow> int" where
  "platformKeyAlgoUbiquity env p =
     (if KeyAlgo p = ''RSA'' then RSAUbiquity env
      else if KeyAlgo p = ''ECDSA256'' then ECDSA256Ubiquity env
      else if KeyAlgo p = ''ECDSA384'' then ECDSA384Ubiquity env
      else if KeyAlgo p = ''ECDSA521'' then ECDSA521Ubiquity env
      else UnknownAlgoUbiquity env)"

definition UntrustedPlatforms :: "Env \<Rightarrow> Certificate \<Rightarrow> string list" where
  "UntrustedPlatforms env rootCert =
     map Platform.Name (filter (\<lambda>p. \<not> Trust p rootCert) (Platforms env))"

definition CrossPlatformUbiquity :: "Env \<Rightarrow> Certificate list \<Rightarrow> int" where
  "CrossPlatformUbiquity env chain =
     sum_list (map Weight
       (filter (\<lambda>p. Trust p (last chain)
                  \<and> platformHashUbiquity env p \<le> ChainHashUbiquity env chain
                  \<and> platformKeyAlgoUbiquity env p \<le> ChainKeyAlgoUbiquity env chain)
          (Platforms env)))"

text \<open>Modelled from the spec: the comparators, package \<^verbatim>\<open>ubiquity\<close> being absent. A
  comparator is positive when its first chain ranks above its second, zero when
  they tie: "CompareChainLength (shorter wins \<rightarrow> negative length)",
  "CompareChainExpiry (later expiry wins)", "CompareChainCryptoSuite (sum of
  HashPriority + KeyAlgoPriority wins)". \<^verbatim>\<open>CompareExpiryUbiquity\<close>, whose scoring
  the specification leaves open, is a parameter.\<close>

type_synonym comparator = "Certificate list \<Rightarrow> Certificate list \<Rightarrow> int"

definition CompareChainLength :: comparator where
  "CompareChainLength chain1 chain2 = (- int (length chain1)) - (- int (length chain2))"

definition CompareChainExpiry :: comparator where
  "CompareChainExpiry chain1 chain2 = ChainExpiry chain1 - ChainExpiry chain2"

definition CompareChainCryptoSuite :: "Env \<Rightarrow> comparator" where
  "CompareChainCryptoSuite env chain1 chain2 =
     (HashPriority env chain1 + KeyAlgoPriority env chain1)
       - (HashPriority env chain2 + KeyAlgoPriority env chain2)"

definition ComparePlatformUbiquity :: "Env \<Rightarrow> comparator" where
  "ComparePlatformUbiquity env chain1 chain2 =
     CrossPlatformUbiquity env chain1 - CrossPlatformUbiquity env chain2"

definition CompareChainHashUbiquity :: "Env \<Rightarrow> comparator" where
  "CompareChainHashUbiquity env chain1 chain2 =
     ChainHashUbiquity env chain1 - ChainHashUbiquity env chain2"

definition CompareChainKeyAlgoUbiquity :: "Env \<Rightarrow> comparator" where
  "CompareChainKeyAlgoUbiquity env chain1 chain2 =
     ChainKeyAlgoUbiquity env chain1 - ChainKeyAlgoUbiquity env chain2"

text \<open>Modelled from the spec: \<^verbatim>\<open>Filter\<close>, package \<^verbatim>\<open>ubiquity\<close> being absent: "The
  comparator defines a total preorder; the filter returns the sublist of inputs
  tied for the maximum. Stability must be preserved (original order among
  equals)." A chain is kept when no chain of the list ranks above it.\<close>

definition Filter :: "Certificate list list \<Rightarrow> comparator \<Rightarrow> Certificate list list" where
  "Filter cs cmp = filter (\<lambda>c. list_all (\<lambda>d. cmp d c \<le> 0) cs) cs"

text \<open>The cascade in the specification's words: "given a list of chains and a list
  of comparators, keeps only those tied for the maximum under each comparator in
  order".\<close>

definition cascade :: "comparator list \<Rightarrow> Certificate list list \<Rightarrow> Certificate list list" where
  "cascade cmps cs0 = fold (\<lambda>cmp cs. Filter cs cmp) cmps cs0"

section \<open>Chain selection\<close>

definition optimalChains :: "Env \<Rightarrow> Certificate list list \<Rightarrow> Certificate list list" where
  "optimalChains env chains0 =
     (let chains1 = Filter chains0 CompareChainLength;
          chains2 = Filter chains1 CompareChainExpiry;
          chains3 = Filter chains2 (CompareChainCryptoSuite env)
      in chains3)"

definition ubiquitousChains :: "Env \<Rightarrow> Certificate list list \<Rightarrow> Certificate list list" where
  "ubiquitousChains env chains0 =
     (let chains1 = Filter chains0 (ComparePlatformUbiquity env);
          chains2 = Filter chains1 CompareChainLength;
          chains3 = Filter chains2 (CompareChainHashUbiquity env);
          chains4 = Filter chains3 (CompareChainKeyAlgoUbiquity env);
          chains5 = Filter chains4 (CompareExpiryUbiquity env)
      in optimalChains env chains5)"


section \<open>Status of a bundle\<close>

definition sha2Warning :: string where
  "sha2Warning = ''The bundle contains certs signed with advanced hash functions such as SHA2,  which are problematic at certain operating systems, e.g. Windows XP SP2.''"

definition expiringWarningStub :: string where
  "expiringWarningStub = ''The bundle is expiring within 30 days. ''"

definition untrustedWarningStub :: string where
  "untrustedWarningStub = ''The bundle may not be trusted by the following platform(s):''"

text \<open>Modelled from the spec: the status codes of package \<^verbatim>\<open>errors\<close>, which is not
  among the sources: "code (bitfield: expiring, not-ubiquitous)", "Success = 0".
  The two bits are the two lowest.\<close>

definition Success :: int where "Success = 0"

definition BundleExpiringBit :: int where "BundleExpiringBit = 1"

definition BundleNotUbiquitousBit :: int where "BundleNotUbiquitousBit = 2"

text \<open>
  \<^verbatim>\<open>cert.NotAfter.Sub(now).Hours() < 720\<close>. A \<^verbatim>\<open>time.Duration\<close> is a 64-bit count of
  nanoseconds and \<^verbatim>\<open>Sub\<close> saturates at its bounds. \<^verbatim>\<open>Hours\<close> adds the whole hours
  and the remaining fraction of an hour; it is the exact rational here, and the
  floating-point value that Go computes lies on the same side of 720: from 720
  hours on the whole hours alone are at least 720, and below 720 the error of the
  floating-point sum is less than \<open>2 ^ - 43\<close>, while the exact value is below 720
  by at least one nanosecond, more than \<open>2 ^ - 42\<close> hours.
\<close>

definition Hour :: int where "Hour = 60 * 60 * 1000000000"

definition minDuration :: int where "minDuration = - (2 ^ 63)"

definition maxDuration :: int where "maxDuration = 2 ^ 63 - 1"

definition Sub :: "int \<Rightarrow> int \<Rightarrow> int" where
  "Sub t u =
     (let d = t - u
      in if d > maxDuration then maxDuration else if d < minDuration then minDuration else d)"

definition Hours :: "int \<Rightarrow> rat" where
  "Hours d = of_int (quot d Hour) + of_int (rem d Hour) / (60 * 60 * 1000000000)"

text \<open>The loop of \<^verbatim>\<open>checkExpiringCerts\<close>, from index \<open>i\<close> on.\<close>

fun checkExpiringCerts_from :: "Env \<Rightarrow> nat \<Rightarrow> Certificate list \<Rightarrow> nat list" where
  "checkExpiringCerts_from env i [] = []"
| "checkExpiringCerts_from env i (cert # rest) =
     (if Hours (Sub (NotAfter cert) (Now env)) < 720
      then i # checkExpiringCerts_from env (Suc i) rest
      else checkExpiringCerts_from env (Suc i) rest)"

definition checkExpiringCerts :: "Env \<Rightarrow> Certificate list \<Rightarrow> nat list" where
  "checkExpiringCerts env chain = checkExpiringCerts_from env 0 chain"

text \<open>\<^verbatim>\<open>fmt.Sprintf("%X", bytes)\<close>: two upper-case hexadecimal digits for each byte.\<close>

definition hexDigit :: "nat \<Rightarrow> char" where
  "hexDigit n = ''0123456789ABCDEF'' ! n"

definition SprintfX :: "string \<Rightarrow> string" where
  "SprintfX bytes =
     concat (map (\<lambda>byte. [hexDigit (of_char byte div 16), hexDigit (of_char byte mod 16)]) bytes)"

text \<open>An index outside the chain makes \<^verbatim>\<open>chain[index]\<close> panic.\<close>

fun getSKIs :: "Certificate list \<Rightarrow> nat list \<Rightarrow> go_error + string list" where
  "getSKIs chain [] = Inr []"
| "getSKIs chain (index # indices) =
     (if index < length chain
      then (case getSKIs chain indices of
              Inl e \<Rightarrow> Inl e
            | Inr skis \<Rightarrow> Inr (SprintfX (SubjectKeyId (chain ! index)) # skis))
      else Inl (Panic ''index out of range''))"

text \<open>\<^verbatim>\<open>strconv.Itoa\<close>: the decimal digits, after a minus sign for a negative number.\<close>

fun digits :: "nat \<Rightarrow> string" where
  "digits n =
     (if n < 10 then [''0123456789'' ! n]
      else digits (n div 10) @ [''0123456789'' ! (n mod 10)])"

declare digits.simps [simp del]

definition Itoa :: "int \<Rightarrow> string" where
  "Itoa i = (if i < 0 then CHR ''-'' # digits (nat (- i)) else digits (nat i))"

definition expirationWarning :: "nat list \<Rightarrow> string" where
  "expirationWarning expiringIntermediates =
     (if length expiringIntermediates = 0 then []
      else
        let ret = expiringWarningStub;
            ret = (if length expiringIntermediates > 1
                   then ret @ ''The expiring certs are''
                   else ret @ ''The expiring cert is'');
            ret = fold (\<lambda>index r. r @ '' #'' @ Itoa (int index + 1)) expiringIntermediates ret
        in ret @ '' in the chain.'')"

fun untrustedPlatformsWarning_from :: "nat \<Rightarrow> string list \<Rightarrow> string \<Rightarrow> string" where
  "untrustedPlatformsWarning_from i [] msg = msg"
| "untrustedPlatformsWarning_from i (platform # rest) msg =
     untrustedPlatformsWarning_from (Suc i) rest
       ((if i > 0 then msg @ '','' else msg) @ '' '' @ platform)"

definition untrustedPlatformsWarning :: "string list \<Rightarrow> string" where
  "untrustedPlatformsWarning platforms =
     (if length platforms = 0 then []
      else untrustedPlatformsWarning_from 0 platforms untrustedWarningStub @ ''.'')"

text \<open>Modelled from the spec: \<^verbatim>\<open>helpers.ExpiryTime\<close>, package \<^verbatim>\<open>helpers\<close> being
  absent: "earliest NotAfter over chain". A chain without certificates has
  none.\<close>

definition ExpiryTime :: "Certificate list \<Rightarrow> int option" where
  "ExpiryTime chain = (if chain = [] then None else Some (min_list (map NotAfter chain)))"

section \<open>Bundle\<close>

text \<open>
  The pairing check of \<^verbatim>\<open>Bundle\<close> (the \<^verbatim>\<open>switch\<close> on the leaf's public key
  algorithm, with and without a key): \<open>None\<close> when it passes. The assertion
  \<^verbatim>\<open>cert.PublicKey.(*rsa.PublicKey)\<close> panics on a key of another type.
\<close>

definition checkKeyPair :: "Certificate \<Rightarrow> PrivateKey option \<Rightarrow> go_error option" where
  "checkKeyPair cert key =
     (case key of
        Some k \<Rightarrow>
          if PublicKeyAlgorithm cert = RSA then
            (case k of
               RSAPrivateKey n \<Rightarrow>
                 (case PublicKey cert of
                    RSAPublicKey m \<Rightarrow>
                      if m \<noteq> n then Some (Error PrivateKeyError KeyMismatch None) else None
                  | _ \<Rightarrow> Some (Panic ''interface conversion''))
             | _ \<Rightarrow> Some (Error PrivateKeyError KeyMismatch None))
          else if PublicKeyAlgorithm cert = ECDSA then
            (case k of
               ECDSAPrivateKey curve x y \<Rightarrow>
                 (case PublicKey cert of
                    ECDSAPublicKey curve' x' y' \<Rightarrow>
                      if x' \<noteq> x then Some (Error PrivateKeyError KeyMismatch None) else None
                  | _ \<Rightarrow> Some (Panic ''interface conversion''))
             | _ \<Rightarrow> Some (Error PrivateKeyError KeyMismatch None))
          else Some (Error PrivateKeyError NotRSAOrECC None)
      | None \<Rightarrow>
          if PublicKeyAlgorithm cert = RSA then None
          else if PublicKeyAlgorithm cert = ECDSA then None
          else Some (Error PrivateKeyError NotRSAOrECC None))"

text \<open>
  Verify, and on an unknown authority fetch the intermediates and verify again.
  \<open>None\<close> is a walk that does not return.
\<close>

definition verifiedChains :: "Env \<Rightarrow> World \<Rightarrow> Certificate list \<Rightarrow> Certificate
    \<Rightarrow> ((go_error + Certificate list list) \<times> World) option" where
  "verifiedChains env b certs cert =
     (case VerifyWith env b cert of
        Inr cs \<Rightarrow> Some (Inr cs, b)
      | Inl err \<Rightarrow>
          if err \<noteq> UnknownAuthorityError
          then Some (Inl (Error CertificateError VerifyFailed (Some err)), b)
          else
            (case fetchIntermediates env b certs of
               None \<Rightarrow> None
             | Some (Some err', b') \<Rightarrow>
                 Some (Inl (Error CertificateError VerifyFailed (Some err')), b')
             | Some (None, b') \<Rightarrow>
                 (case VerifyWith env b' cert of
                    Inl err' \<Rightarrow> Some (Inl (Error CertificateError VerifyFailed (Some err')), b')
                  | Inr cs \<Rightarrow> Some (Inr cs, b'))))"

definition matchingChainsOf :: "Env \<Rightarrow> string \<Rightarrow> Certificate list list
    \<Rightarrow> Certificate list list" where
  "matchingChainsOf env flavor cs =
     (if flavor = ''optimal'' then optimalChains env cs
      else if flavor = ''ubiquitous'' then ubiquitousChains env cs
      else ubiquitousChains env cs)"

text \<open>The status code and the messages, from \<^verbatim>\<open>statusCode := int(errors.Success)\<close> to
  the last \<^verbatim>\<open>append\<close>.\<close>

definition statusOf :: "Env \<Rightarrow> Certificate list \<Rightarrow> nat list \<Rightarrow> string list
    \<Rightarrow> int \<times> string list" where
  "statusOf env matching0 expiringCerts untrusted =
     (let statusCode = Success; messages = [];
          (statusCode, messages) =
            (if length expiringCerts > 0
             then (statusCode OR BundleExpiringBit, messages @ [expirationWarning expiringCerts])
             else (statusCode, messages));
          (statusCode, messages) =
            (if ChainHashUbiquity env matching0 \<le> SHA2Ubiquity env
             then (statusCode OR BundleNotUbiquitousBit, messages @ [sha2Warning])
             else (statusCode, messages));
          (statusCode, messages) =
            (if length untrusted > 0
             then (statusCode OR BundleNotUbiquitousBit,
                   messages @ [untrustedPlatformsWarning untrusted])
             else (statusCode, messages))
      in (statusCode, messages))"

text \<open>The comparison of the bundle with the input, by signatures.\<close>

definition isDifferent :: "Certificate list \<Rightarrow> Certificate list \<Rightarrow> bool" where
  "isDifferent certs chain =
     (if length chain \<noteq> length certs then True
      else list_ex (\<lambda>i. Signature (certs ! i) \<noteq> Signature (chain ! i)) [0..<length chain])"

text \<open>
  \<^verbatim>\<open>Bundle\<close> from the choice of the flavor on. \<^verbatim>\<open>matchingChains[0]\<close> panics on an
  empty list, and the slice up to \<^verbatim>\<open>len(matchingChains[0])-1\<close> on an empty chain.
\<close>

definition assemble :: "Env \<Rightarrow> Certificate list \<Rightarrow> Certificate \<Rightarrow> PrivateKey option \<Rightarrow> string
    \<Rightarrow> Certificate list list \<Rightarrow> go_error + Bundle option" where
  "assemble env certs cert key flavor cs =
     (let matchingChains = matchingChainsOf env flavor cs
      in if length matchingChains = 0 then Inl (Panic ''index out of range'')
         else
           let matching0 = matchingChains ! 0
           in if length matching0 = 0 then Inl (Panic ''slice bounds out of range'')
              else
                let chain = take (length matching0 - 1) matching0;
                    expiringCerts = checkExpiringCerts env chain;
                    rootCert = matching0 ! (length matching0 - 1);
                    untrusted = UntrustedPlatforms env rootCert;
                    (statusCode, messages) = statusOf env matching0 expiringCerts untrusted
                in case getSKIs chain expiringCerts of
                     Inl e \<Rightarrow> Inl e
                   | Inr skis \<Rightarrow>
                       Inr (Some
                         \<lparr>Chain = chain, Bundle.Cert = cert, Key = key,
                          Issuer = IssuerCommonName cert, Subject = SubjectCommonName cert,
                          Expires = ExpiryTime chain,
                          Status = \<lparr>IsRebundled = isDifferent certs chain, ExpiringSKIs = skis,
                                    Untrusted = untrusted, Messages = messages,
                                    Code = statusCode\<rparr>\<rparr>))"

text \<open>
  \<^verbatim>\<open>Bundle\<close>. Its first statement logs \<^verbatim>\<open>certs[0].Subject\<close>, which panics on an empty
  list; the test of \<^verbatim>\<open>len(certs) == 0\<close> comes after it.
\<close>

definition Bundle :: "Env \<Rightarrow> World \<Rightarrow> Certificate list \<Rightarrow> PrivateKey option \<Rightarrow> string
    \<Rightarrow> ((go_error + Bundle option) \<times> World) option" where
  "Bundle env b certs key flavor =
     (if \<not> 0 < length certs then Some (Inl (Panic ''index out of range''), b)
      else if length certs = 0 then Some (Inr None, b)
      else
        let cert = certs ! 0
        in case checkKeyPair cert key of
             Some e \<Rightarrow> Some (Inl e, b)
           | None \<Rightarrow>
               if CheckSignatureFrom env cert cert
               then Some (Inl (Error CertificateError SelfSigned None), b)
               else
                 (case verifiedChains env b certs cert of
                    None \<Rightarrow> None
                  | Some (Inl e, b') \<Rightarrow> Some (Inl e, b')
                  | Some (Inr cs, b') \<Rightarrow> Some (assemble env certs cert key flavor cs, b')))"


text \<open>
  The chain that \<^verbatim>\<open>Bundle\<close> selects when the verifier returns chains:
  \<^verbatim>\<open>matchingChains[0]\<close>, root included.
\<close>

definition selectedChain :: "Env \<Rightarrow> World \<Rightarrow> Certificate list \<Rightarrow> string
    \<Rightarrow> Certificate list" where
  "selectedChain env b certs flavor =
     (case verifiedChains env b certs (certs ! 0) of
        Some (Inr cs, b') \<Rightarrow> matchingChainsOf env flavor cs ! 0
      | _ \<Rightarrow> [])"

section \<open>The specification's notions\<close>

text \<open>
  In the specification's words, a certificate is expiring when its NotAfter lies
  "within 30 \<times> 24 hours from now".
\<close>

definition isExpiring :: "Env \<Rightarrow> Certificate \<Rightarrow> bool" where
  "isExpiring env cert \<longleftrightarrow> NotAfter cert - Now env < 720 * Hour"

text \<open>The 1-based positions of the expiring certificates of a chain, in chain order.\<close>

definition expiringPositions :: "Env \<Rightarrow> Certificate list \<Rightarrow> nat list" where
  "expiringPositions env chain =
     map Suc (filter (\<lambda>i. isExpiring env (chain ! i)) [0..<length chain])"

text \<open>
  The measure of the AIA walk: two for every URL that can still be fetched and has
  not been seen, one for every element of the partial chain.
\<close>

definition walkMeasure :: "Env \<Rightarrow> Walk \<Rightarrow> nat" where
  "walkMeasure env w =
     2 * card (fst ` set (Remote env) - walk_seen w) + length (walk_chain w)"

section \<open>A small public key infrastructure\<close>

text \<open>
  A root, an intermediate that expires in fifteen days, and a leaf, all signed with
  SHA-256; a verifier that builds paths with at most one intermediate by issuer
  and subject names; one platform, which trusts the root; ranks that pass the
  tests of package \<^verbatim>\<open>ubiquity\<close>, with SHA-1 above SHA-2.
\<close>

definition day :: int where "day = 24 * Hour"

definition demoRoot :: Certificate where
  "demoRoot = \<lparr>Raw = ''der:root'', Signature = ''sig:root'',
     SignatureAlgorithm = ECDSAWithSHA256, PublicKeyAlgorithm = ECDSA,
     PublicKey = ECDSAPublicKey P256 11 12,
     SubjectCommonName = ''Demo Root'', IssuerCommonName = ''Demo Root'',
     NotAfter = 3650 * day, SubjectKeyId = [CHR 0x01, CHR 0xAF],
     IssuingCertificateURL = []\<rparr>"

definition demoInt :: Certificate where
  "demoInt = \<lparr>Raw = ''der:ca1'', Signature = ''sig:ca1'',
     SignatureAlgorithm = ECDSAWithSHA256, PublicKeyAlgorithm = ECDSA,
     PublicKey = ECDSAPublicKey P256 21 22,
     SubjectCommonName = ''Demo CA 1'', IssuerCommonName = ''Demo Root'',
     NotAfter = 15 * day, SubjectKeyId = [CHR 0x0B, CHR 0xE2],
     IssuingCertificateURL = [''http://pki.demo/root.crt'']\<rparr>"

definition demoLeaf :: Certificate where
  "demoLeaf = \<lparr>Raw = ''der:leaf'', Signature = ''sig:leaf'',
     SignatureAlgorithm = ECDSAWithSHA256, PublicKeyAlgorithm = ECDSA,
     PublicKey = ECDSAPublicKey P256 31 32,
     SubjectCommonName = ''www.demo.test'', IssuerCommonName = ''Demo CA 1'',
     NotAfter = 90 * day, SubjectKeyId = [CHR 0x7C, CHR 0x30],
     IssuingCertificateURL = [''http://pki.demo/ca1.crt'']\<rparr>"

text \<open>The root issued again under the same name and key: another signature.\<close>

definition demoRootReissued :: Certificate where
  "demoRootReissued = demoRoot\<lparr>Raw := ''der:root2'', Signature := ''sig:root2''\<rparr>"

definition demoVerify :: "Certificate list \<Rightarrow> Certificate list \<Rightarrow> Certificate
    \<Rightarrow> go_error + Certificate list list" where
  "demoVerify roots ints c =
     (let found =
            [[c, r]. r \<leftarrow> roots, SubjectCommonName r = IssuerCommonName c]
            @ [[c, i, r]. i \<leftarrow> ints, SubjectCommonName i = IssuerCommonName c,
                          r \<leftarrow> roots, SubjectCommonName r = IssuerCommonName i]
      in if found = [] then Inl UnknownAuthorityError else Inr found)"

definition demoPlatform :: Platform where
  "demoPlatform = \<lparr>Platform.Name = ''DemoOS'', Weight = 100, HashAlgo = ''SHA2'',
     KeyAlgo = ''ECDSA256'', KeyStore = {''sig:root''}\<rparr>"

definition demoEnv :: Env where
  "demoEnv = \<lparr>Verify = demoVerify,
     CheckSignatureFrom = (\<lambda>c p. IssuerCommonName c = SubjectCommonName p),
     Remote = [(''http://pki.demo/ca1.crt'', demoInt)],
     Base = (\<lambda>url. rev (takeWhile (\<lambda>ch. ch \<noteq> CHR ''/'') (rev url))),
     Now = 0, MkdirStash = None, Platforms = [demoPlatform],
     hashPriority = (\<lambda>c. 0), keyAlgoPriority = (\<lambda>c. 0),
     CompareExpiryUbiquity = (\<lambda>chain1 chain2. 0),
     SHA1Ubiquity = 100, SHA2Ubiquity = 70, UnknownHashUbiquity = 0,
     RSAUbiquity = 100, ECDSA256Ubiquity = 70, ECDSA384Ubiquity = 70,
     ECDSA521Ubiquity = 30, UnknownAlgoUbiquity = 0\<rparr>"

text \<open>
  Four bundlers: with the root alone; with the intermediate in the pool; as the
  AIA walk from the leaf leaves the first; with the intermediate also among the
  roots.
\<close>

definition demoBundler :: World where
  "demoBundler = \<lparr>RootPool = [demoRoot], IntermediatePool = [],
     KnownIssuers = {''sig:root''}, StashWrites = []\<rparr>"

definition demoBundlerStocked :: World where
  "demoBundlerStocked = demoBundler\<lparr>IntermediatePool := [demoInt],
     KnownIssuers := {''sig:root'', ''sig:ca1''}\<rparr>"

definition demoBundlerFetched :: World where
  "demoBundlerFetched = demoBundler\<lparr>IntermediatePool := [demoInt, demoLeaf],
     KnownIssuers := {''sig:ca1'', ''sig:root''},
     StashWrites := [(''ca1.crt'', ''der:ca1'')]\<rparr>"

definition demoBundlerAnchored :: World where
  "demoBundlerAnchored = demoBundler\<lparr>RootPool := [demoRoot, demoInt],
     IntermediatePool := [demoInt], KnownIssuers := {''sig:root'', ''sig:ca1''}\<rparr>"

text \<open>The bundle of the leaf and the intermediate.\<close>

definition demoMessages :: "string list" where
  "demoMessages =
     [''The bundle is expiring within 30 days. The expiring cert is #2 in the chain.'',
      sha2Warning]"

definition demoBundle :: "bool \<Rightarrow> Bundle" where
  "demoBundle rebundled =
     \<lparr>Chain = [demoLeaf, demoInt], Bundle.Cert = demoLeaf, Key = None,
      Issuer = ''Demo CA 1'', Subject = ''www.demo.test'', Expires = Some (15 * day),
      Status = \<lparr>IsRebundled = rebundled, ExpiringSKIs = [''0BE2''], Untrusted = [],
                Messages = demoMessages, Code = 3\<rparr>\<rparr>"

text \<open>The output chain of a run of \<^verbatim>\<open>Bundle\<close> that returns a bundle.\<close>

definition chainOf :: "((go_error + Bundle option) \<times> World) option
    \<Rightarrow> Certificate list option" where
  "chainOf r = (case r of Some (Inr (Some bundle), b') \<Rightarrow> Some (Chain bundle) | _ \<Rightarrow> None)"

text \<open>
  The partial chain that a server's certificates give when it also sends the
  reissued root, and the walk that starts from the leaf alone.
\<close>

definition demoPartialChain :: "fetchedIntermediate list" where
  "demoPartialChain = initialChain 0 [demoLeaf, demoInt, demoRootReissued] []"

definition demoWalk :: Walk where
  "demoWalk = \<lparr>walk_b = demoBundler, walk_seen = {''sig:leaf''}, walk_foundChains = 0,
     walk_chain = initialChain 0 [demoLeaf] []\<rparr>"

definition demoWalkEnd :: Walk where
  "demoWalkEnd = \<lparr>walk_b = demoBundlerFetched,
     walk_seen = {''sig:ca1'', ''http://pki.demo/ca1.crt'', ''sig:leaf''},
     walk_foundChains = 2, walk_chain = []\<rparr>"


text \<open>
  A verifier that rejects every certificate, and a walk whose partial chain is the
  intermediate alone, from the bundler that knows it.
\<close>

definition demoEnvRejecting :: Env where
  "demoEnvRejecting = demoEnv\<lparr>Verify := (\<lambda>roots ints c. Inl UnknownAuthorityError)\<rparr>"

definition demoWalkKnown :: Walk where
  "demoWalkKnown = \<lparr>walk_b = demoBundlerStocked, walk_seen = {''sig:ca1''},
     walk_foundChains = 0, walk_chain = initialChain 0 [demoInt] []\<rparr>"

text \<open>
  The same three certificates signed with SHA-1, the bundler that has them, the
  bundle of the leaf and the intermediate from it, and a second platform, which
  trusts no root.
\<close>

definition demoRootSHA1 :: Certificate where
  "demoRootSHA1 = demoRoot\<lparr>SignatureAlgorithm := ECDSAWithSHA1\<rparr>"

definition demoIntSHA1 :: Certificate where
  "demoIntSHA1 = demoInt\<lparr>SignatureAlgorithm := ECDSAWithSHA1\<rparr>"

definition demoLeafSHA1 :: Certificate where
  "demoLeafSHA1 = demoLeaf\<lparr>SignatureAlgorithm := ECDSAWithSHA1\<rparr>"

definition demoBundlerSHA1 :: World where
  "demoBundlerSHA1 = \<lparr>RootPool = [demoRootSHA1], IntermediatePool = [demoIntSHA1],
     KnownIssuers = {''sig:root'', ''sig:ca1''}, StashWrites = []\<rparr>"

definition demoPlatformOther :: Platform where
  "demoPlatformOther = \<lparr>Platform.Name = ''OtherOS'', Weight = 50, HashAlgo = ''SHA1'',
     KeyAlgo = ''RSA'', KeyStore = {}\<rparr>"

definition demoEnvTwoPlatforms :: Env where
  "demoEnvTwoPlatforms = demoEnv\<lparr>Platforms := [demoPlatform, demoPlatformOther]\<rparr>"

definition demoBundleSHA1 :: "string list \<Rightarrow> string list \<Rightarrow> int \<Rightarrow> Bundle" where
  "demoBundleSHA1 untrusted warnings code =
     \<lparr>Chain = [demoLeafSHA1, demoIntSHA1], Bundle.Cert = demoLeafSHA1, Key = None,
      Issuer = ''Demo CA 1'', Subject = ''www.demo.test'', Expires = Some (15 * day),
      Status = \<lparr>IsRebundled = False, ExpiringSKIs = [''0BE2''], Untrusted = untrusted,
                Messages =
                  ''The bundle is expiring within 30 days. The expiring cert is #2 in the chain.''
                  # warnings,
                Code = code\<rparr>\<rparr>"

section \<open>Lemmas\<close>


lemma walkIssuers_Some:
  "walkIssuers env seen urls = Some (url, crt) \<Longrightarrow>
     url \<in> set urls \<and> url \<notin> seen \<and> url \<in> fst ` set (Remote env)
     \<and> fetchRemoteCertificate env url = Some crt \<and> Signature (Cert crt) \<notin> seen"
proof (induction urls)
  case Nil
  then show ?case by simp
next
  case (Cons u urls)
  show ?case
  proof (cases "u \<in> seen")
    case True
    with Cons show ?thesis by auto
  next
    case False
    show ?thesis
    proof (cases "fetchRemoteCertificate env u")
      case None
      with False Cons show ?thesis by auto
    next
      case (Some c)
      then have dom: "u \<in> fst ` set (Remote env)"
        by (auto simp: fetchRemoteCertificate_def split: option.splits dest: map_of_SomeD intro: rev_image_eqI)
      show ?thesis
      proof (cases "Signature (Cert c) \<in> seen")
        case True
        with False Some Cons show ?thesis by auto
      next
        case sig: False
        with False Some Cons.prems have "url = u" "crt = c" by auto
        with False Some sig dom show ?thesis by simp
      qed
    qed
  qed
qed

lemma fetchStep_cases:
  assumes "walk_chain w \<noteq> []"
  shows "(walk_chain (fetchStep env w) = tl (walk_chain w)
           \<and> walk_seen (fetchStep env w) = walk_seen w)
       \<or> (\<exists>url crt. walk_chain (fetchStep env w) = crt # walk_chain w
             \<and> url \<notin> walk_seen w \<and> Signature (Cert crt) \<notin> walk_seen w
             \<and> url \<in> fst ` set (Remote env)
             \<and> walk_seen (fetchStep env w)
                 = insert (Signature (Cert crt)) (insert url (walk_seen w)))"
  by (auto simp: fetchStep_def Let_def split: prod.splits option.splits
           dest!: walkIssuers_Some)

lemma fetchStep_found:
  "walk_foundChains w \<le> walk_foundChains (fetchStep env w)"
  by (auto simp: fetchStep_def Let_def split: prod.splits option.splits)

lemma fetchStep_measure:
  assumes "walk_chain w \<noteq> []"
  shows "walkMeasure env (fetchStep env w) < walkMeasure env w"
proof -
  let ?D = "fst ` set (Remote env)"
  from fetchStep_cases [OF assms, of env] show ?thesis
  proof (elim disjE exE conjE)
    assume "walk_chain (fetchStep env w) = tl (walk_chain w)"
       and "walk_seen (fetchStep env w) = walk_seen w"
    with assms show ?thesis by (simp add: walkMeasure_def)
  next
    fix url crt
    assume c: "walk_chain (fetchStep env w) = crt # walk_chain w"
       and u: "url \<notin> walk_seen w" "url \<in> ?D"
       and s: "walk_seen (fetchStep env w)
                 = insert (Signature (Cert crt)) (insert url (walk_seen w))"
    have "?D - walk_seen (fetchStep env w) \<subset> ?D - walk_seen w"
      using u s by auto
    then have "card (?D - walk_seen (fetchStep env w)) < card (?D - walk_seen w)"
      by (intro psubset_card_mono) auto
    with c show ?thesis by (simp add: walkMeasure_def)
  qed
qed

lemma fetchLoop_returns:
  "\<exists>err w'. fetchLoop env w = Some (err, w')
      \<and> (err = Some UnknownAuthorityError \<longleftrightarrow> walk_foundChains w' = 0)
      \<and> (err = None \<longleftrightarrow> walk_foundChains w' \<noteq> 0)
      \<and> walk_foundChains w \<le> walk_foundChains w' \<and> walk_chain w' = []"
proof (induction "walkMeasure env w" arbitrary: w rule: less_induct)
  case less
  show ?case
  proof (cases "walk_chain w = []")
    case True
    then show ?thesis by (subst fetchLoop.simps) auto
  next
    case False
    from less [OF fetchStep_measure [OF False]]
    obtain err w' where r: "fetchLoop env (fetchStep env w) = Some (err, w')"
      "err = Some UnknownAuthorityError \<longleftrightarrow> walk_foundChains w' = 0"
      "err = None \<longleftrightarrow> walk_foundChains w' \<noteq> 0"
      "walk_foundChains (fetchStep env w) \<le> walk_foundChains w'" "walk_chain w' = []"
      by auto
    have "fetchLoop env w = Some (err, w')"
      using False r(1) by (subst fetchLoop.simps) simp
    with r fetchStep_found [of w env] show ?thesis
      by (metis le_trans)
  qed
qed



lemma Hours_exact: "Hours d = of_int d / of_int Hour"
  by (simp add: Hours_def rem_def Hour_def field_simps)

lemma Hours_less_720: "Hours d < 720 \<longleftrightarrow> d < 720 * Hour"
proof -
  have "Hours d < 720 \<longleftrightarrow> (of_int d :: rat) < 720 * of_int Hour"
    by (simp add: Hours_exact Hour_def field_simps)
  also have "\<dots> \<longleftrightarrow> (of_int d :: rat) < of_int (720 * Hour)" by simp
  also have "\<dots> \<longleftrightarrow> d < 720 * Hour" by (simp only: of_int_less_iff)
  finally show ?thesis .
qed

lemma Sub_less_720: "Sub t u < 720 * Hour \<longleftrightarrow> t - u < 720 * Hour"
  by (simp add: Sub_def Let_def Hour_def maxDuration_def minDuration_def)

lemma expiring_iff: "Hours (Sub t u) < 720 \<longleftrightarrow> t - u < 720 * Hour"
  by (simp add: Hours_less_720 Sub_less_720)

lemma checkExpiringCerts_from_eq:
  "checkExpiringCerts_from env i chain
     = map (\<lambda>j. i + j) (filter (\<lambda>j. isExpiring env (chain ! j)) [0..<length chain])"
proof (induction chain arbitrary: i)
  case Nil
  then show ?case by simp
next
  case (Cons c chain)
  have shift: "[0..<length (c # chain)] = 0 # map Suc [0..<length chain]"
    by (simp add: upt_conv_Cons map_Suc_upt del: upt_Suc)
  show ?case
    unfolding shift
    by (simp add: Cons.IH expiring_iff isExpiring_def filter_map comp_def)
qed

lemma checkExpiringCerts_eq:
  "checkExpiringCerts env chain = filter (\<lambda>j. isExpiring env (chain ! j)) [0..<length chain]"
  by (simp add: checkExpiringCerts_def checkExpiringCerts_from_eq)

lemma checkExpiringCerts_bound:
  "\<forall>i\<in>set (checkExpiringCerts env chain). i < length chain"
  by (simp add: checkExpiringCerts_eq)

lemma nths_filter_upt:
  "map ((!) xs) (filter (\<lambda>j. P (xs ! j)) [0..<length xs]) = filter P xs"
proof -
  have "filter P xs = filter P (map ((!) xs) [0..<length xs])"
    by (simp add: map_nth)
  also have "\<dots> = map ((!) xs) (filter (P \<circ> (!) xs) [0..<length xs])"
    by (rule filter_map)
  finally show ?thesis by (simp add: comp_def)
qed

lemma getSKIs_in_range:
  "\<forall>i\<in>set indices. i < length chain \<Longrightarrow>
     getSKIs chain indices = Inr (map (\<lambda>i. SprintfX (SubjectKeyId (chain ! i))) indices)"
  by (induction indices) auto

lemma getSKIs_expiring:
  "getSKIs chain (checkExpiringCerts env chain)
     = Inr (map (\<lambda>c. SprintfX (SubjectKeyId c)) (filter (isExpiring env) chain))"
proof -
  have "map (\<lambda>i. SprintfX (SubjectKeyId (chain ! i))) (checkExpiringCerts env chain)
      = map (\<lambda>c. SprintfX (SubjectKeyId c)) (map ((!) chain) (checkExpiringCerts env chain))"
    by simp
  also have "\<dots> = map (\<lambda>c. SprintfX (SubjectKeyId c)) (filter (isExpiring env) chain)"
    by (simp only: checkExpiringCerts_eq nths_filter_upt)
  finally show ?thesis
    by (simp add: getSKIs_in_range [OF checkExpiringCerts_bound])
qed

lemma set_Filter: "set (Filter cs cmp) \<subseteq> set cs"
  by (auto simp: Filter_def)

lemma set_optimalChains: "set (optimalChains env cs) \<subseteq> set cs"
  unfolding optimalChains_def Let_def by (blast dest: set_Filter [THEN subsetD])

lemma set_ubiquitousChains: "set (ubiquitousChains env cs) \<subseteq> set cs"
  unfolding ubiquitousChains_def Let_def
  by (blast dest: set_Filter [THEN subsetD] set_optimalChains [THEN subsetD])

lemma set_matchingChainsOf: "set (matchingChainsOf env flavor cs) \<subseteq> set cs"
  by (simp add: matchingChainsOf_def set_optimalChains set_ubiquitousChains)

lemma assemble_SomeD:
  assumes "assemble env certs cert key flavor cs = Inr (Some bundle)"
  defines "sel \<equiv> matchingChainsOf env flavor cs ! 0"
  defines "st \<equiv> statusOf env sel (checkExpiringCerts env (butlast sel))
                    (UntrustedPlatforms env (last sel))"
  shows "matchingChainsOf env flavor cs \<noteq> []" and "sel \<noteq> []"
    and "Chain bundle = butlast sel"
    and "Status bundle =
           \<lparr>IsRebundled = isDifferent certs (butlast sel),
            ExpiringSKIs = map (\<lambda>c. SprintfX (SubjectKeyId c))
                             (filter (isExpiring env) (butlast sel)),
            Untrusted = UntrustedPlatforms env (last sel),
            Messages = snd st, Code = fst st\<rparr>"
proof -
  from assms(1) show ne: "matchingChainsOf env flavor cs \<noteq> []"
    by (auto simp: assemble_def Let_def split: if_splits)
  from assms(1) ne show ne2: "sel \<noteq> []"
    by (auto simp: assemble_def Let_def sel_def split: if_splits)
  have tk: "take (length sel - Suc 0) sel = butlast sel"
    by (simp add: butlast_conv_take)
  have lst: "sel ! (length sel - Suc 0) = last sel"
    using ne2 by (simp add: last_conv_nth)
  obtain code msgs where st_eq: "st = (code, msgs)"
    by (cases st)
  from assms(1) ne ne2 have
    b: "bundle = \<lparr>Chain = butlast sel, Bundle.Cert = cert, Key = key,
          Issuer = IssuerCommonName cert, Subject = SubjectCommonName cert,
          Expires = ExpiryTime (butlast sel),
          Status = \<lparr>IsRebundled = isDifferent certs (butlast sel),
            ExpiringSKIs = map (\<lambda>c. SprintfX (SubjectKeyId c))
                             (filter (isExpiring env) (butlast sel)),
            Untrusted = UntrustedPlatforms env (last sel),
            Messages = msgs, Code = code\<rparr>\<rparr>"
    unfolding assemble_def Let_def sel_def [symmetric]
    using st_eq [unfolded st_def]
    by (simp add: tk lst getSKIs_expiring)
  show "Chain bundle = butlast sel"
    by (subst b) simp
  show "Status bundle =
           \<lparr>IsRebundled = isDifferent certs (butlast sel),
            ExpiringSKIs = map (\<lambda>c. SprintfX (SubjectKeyId c))
                             (filter (isExpiring env) (butlast sel)),
            Untrusted = UntrustedPlatforms env (last sel),
            Messages = snd st, Code = fst st\<rparr>"
    by (subst b) (simp add: st_eq)
qed

lemma Bundle_SomeD:
  assumes "Bundle env b certs key flavor = Some (Inr (Some bundle), b')"
  shows "\<exists>cs. certs \<noteq> [] \<and> checkKeyPair (certs ! 0) key = None
           \<and> \<not> CheckSignatureFrom env (certs ! 0) (certs ! 0)
           \<and> verifiedChains env b certs (certs ! 0) = Some (Inr cs, b')
           \<and> assemble env certs (certs ! 0) key flavor cs = Inr (Some bundle)"
  using assms
  by (auto simp: Bundle_def Let_def split: if_splits option.splits sum.splits prod.splits)



lemma statusOf_code:
  "fst (statusOf env sel ex un) =
     (if ex \<noteq> [] then 1 else 0)
       + (if ChainHashUbiquity env sel \<le> SHA2Ubiquity env \<or> un \<noteq> [] then 2 else 0)"
  by (simp add: statusOf_def Let_def Success_def BundleExpiringBit_def BundleNotUbiquitousBit_def)

lemma statusOf_messages:
  "snd (statusOf env sel ex un) =
     (if ex \<noteq> [] then [expirationWarning ex] else [])
       @ (if ChainHashUbiquity env sel \<le> SHA2Ubiquity env then [sha2Warning] else [])
       @ (if un \<noteq> [] then [untrustedPlatformsWarning un] else [])"
  by (simp add: statusOf_def Let_def)

lemma fold_append_concat:
  "fold (\<lambda>x r. r @ f x) xs r0 = r0 @ concat (map f xs)"
  by (induction xs arbitrary: r0) auto

lemma expirationWarning_eq:
  "ex \<noteq> [] \<Longrightarrow>
   expirationWarning ex =
     expiringWarningStub
       @ (if 1 < length ex then ''The expiring certs are'' else ''The expiring cert is'')
       @ concat (map (\<lambda>i. '' #'' @ Itoa (int i + 1)) ex) @ '' in the chain.''"
  by (simp add: expirationWarning_def Let_def fold_append_concat)

lemma min_list_le_iff:
  "xs \<noteq> [] \<Longrightarrow> min_list xs \<le> (k::int) \<longleftrightarrow> (\<exists>x\<in>set xs. x \<le> k)"
  by (simp add: min_list_Min Min_le_iff)

lemma ChainHashUbiquity_le_iff:
  "sel \<noteq> [] \<Longrightarrow>
     ChainHashUbiquity env sel \<le> k \<longleftrightarrow> (\<exists>c\<in>set sel. hashUbiquity env c \<le> k)"
  by (simp add: ChainHashUbiquity_def min_list_le_iff)

lemma hashUbiquity_le_SHA2_iff:
  assumes "SHA2Ubiquity env < SHA1Ubiquity env"
    and "UnknownHashUbiquity env \<le> SHA2Ubiquity env"
  shows "hashUbiquity env c \<le> SHA2Ubiquity env \<longleftrightarrow> hashOf (SignatureAlgorithm c) \<noteq> HashSHA1"
  using assms by (cases "hashOf (SignatureAlgorithm c)") (simp_all add: hashUbiquity_def)

lemma hashUbiquity_SHA2: "hashOf (SignatureAlgorithm c) = HashSHA2 \<Longrightarrow>
    hashUbiquity env c = SHA2Ubiquity env"
  by (simp add: hashUbiquity_def)

lemma UntrustedPlatforms_nonempty:
  "UntrustedPlatforms env r \<noteq> [] \<longleftrightarrow> (\<exists>p\<in>set (Platforms env). \<not> Trust p r)"
  by (auto simp: UntrustedPlatforms_def filter_empty_conv)

lemma code_expiring_bit:
  "((if e then 1 else 0) + (if u then 2 else (0::int))) AND BundleExpiringBit \<noteq> 0 \<longleftrightarrow> e"
  by (simp add: BundleExpiringBit_def)

lemma code_not_ubiquitous_bit:
  "((if e then 1 else 0) + (if u then 2 else (0::int))) AND BundleNotUbiquitousBit \<noteq> 0 \<longleftrightarrow> u"
  by (simp add: BundleNotUbiquitousBit_def)

lemma hexDigit_range: "n < 16 \<Longrightarrow> hexDigit n \<in> set ''0123456789ABCDEF''"
  unfolding hexDigit_def by (rule nth_mem) simp

lemma SprintfX_chars: "set (SprintfX s) \<subseteq> set ''0123456789ABCDEF''"
proof -
  define H where "H = set ''0123456789ABCDEF''"
  have "hexDigit (of_char c div 16) \<in> H" and "hexDigit (of_char c mod 16) \<in> H" for c :: char
  proof -
    have "(of_char c :: nat) div 16 < 16"
      by (rule less_mult_imp_div_less) simp
    then show "hexDigit (of_char c div 16) \<in> H"
      unfolding H_def by (rule hexDigit_range)
    show "hexDigit (of_char c mod 16) \<in> H"
      unfolding H_def by (rule hexDigit_range) simp
  qed
  then have "set (SprintfX s) \<subseteq> H"
    by (auto simp: SprintfX_def)
  then show ?thesis by (simp only: H_def)
qed

lemma length_SprintfX: "length (SprintfX s) = 2 * length s"
  by (induction s) (simp_all add: SprintfX_def)



lemma set_AddCert: "set (AddCert pool c) \<subseteq> insert c (set pool)"
  by (auto simp: AddCert_def)

lemma verifyChain_loop_effects:
  "set (IntermediatePool (snd (verifyChain_loop env chain b vchain)))
      \<subseteq> set (IntermediatePool b) \<union> Cert ` set vchain
   \<and> set (StashWrites (snd (verifyChain_loop env chain b vchain)))
      \<subseteq> set (StashWrites b) \<union> (\<lambda>f. (Name f, Raw (Cert f))) ` set vchain
   \<and> KnownIssuers (snd (verifyChain_loop env chain b vchain))
      \<subseteq> KnownIssuers b \<union> (\<lambda>f. Signature (Cert f)) ` set vchain
   \<and> RootPool (snd (verifyChain_loop env chain b vchain)) = RootPool b"
proof (induction vchain arbitrary: b)
  case Nil
  then show ?case by simp
next
  case (Cons cert vchain)
  let ?b1 = "b\<lparr>IntermediatePool := AddCert (IntermediatePool b) (Cert cert)\<rparr>"
  let ?b2 = "?b1\<lparr>KnownIssuers := insert (Signature (Cert cert)) (KnownIssuers ?b1),
                  StashWrites := StashWrites ?b1 @ [(Name cert, Raw (Cert cert))]\<rparr>"
  note ih0 = Cons.IH [of b] and ih1 = Cons.IH [of ?b1] and ih2 = Cons.IH [of ?b2]
  consider (known) "Signature (Cert cert) \<in> KnownIssuers b"
    | (fail) "Signature (Cert cert) \<notin> KnownIssuers b" "isl (VerifyWith env b (Cert cert))"
    | (top) "Signature (Cert cert) \<notin> KnownIssuers b" "\<not> isl (VerifyWith env b (Cert cert))"
        "length chain = length (cert # vchain) \<and> isChainRootNode env (Cert cert)"
    | (unnamed) "Signature (Cert cert) \<notin> KnownIssuers b" "\<not> isl (VerifyWith env b (Cert cert))"
        "\<not> (length chain = length (cert # vchain) \<and> isChainRootNode env (Cert cert))"
        "Name cert = []"
    | (named) "Signature (Cert cert) \<notin> KnownIssuers b" "\<not> isl (VerifyWith env b (Cert cert))"
        "\<not> (length chain = length (cert # vchain) \<and> isChainRootNode env (Cert cert))"
        "Name cert \<noteq> []"
    by blast
  then show ?case
  proof cases
    case known
    then have eq: "verifyChain_loop env chain b (cert # vchain) = verifyChain_loop env chain b vchain"
      by simp
    show ?thesis unfolding eq using ih0 by auto
  next
    case fail
    then have eq: "verifyChain_loop env chain b (cert # vchain) = (False, b)"
      by simp
    show ?thesis unfolding eq by auto
  next
    case top
    then have eq: "verifyChain_loop env chain b (cert # vchain) = verifyChain_loop env chain b vchain"
      by simp
    show ?thesis unfolding eq using ih0 by auto
  next
    case unnamed
    then have eq: "verifyChain_loop env chain b (cert # vchain) = verifyChain_loop env chain ?b1 vchain"
      by (auto simp: Let_def)
    show ?thesis unfolding eq
      using ih1 set_AddCert [of "IntermediatePool b" "Cert cert"] by auto
  next
    case named
    then have eq: "verifyChain_loop env chain b (cert # vchain) = verifyChain_loop env chain ?b2 vchain"
      by (auto simp: Let_def)
    show ?thesis unfolding eq
      using ih2 set_AddCert [of "IntermediatePool b" "Cert cert"] by auto
  qed
qed


lemma verifyChain_loop_known:
  "\<forall>f\<in>set vchain. Signature (Cert f) \<in> KnownIssuers b \<Longrightarrow>
     verifyChain_loop env chain b vchain = (True, b)"
  by (induction vchain) simp_all

subsection \<open>The walk and the bundler always return\<close>

lemma fetchIntermediates_returns:
  "\<exists>err b'. fetchIntermediates env b certs = Some (err, b')"
proof (cases "MkdirStash env")
  case None
  from fetchLoop_returns obtain err w' where
    "fetchLoop env \<lparr>walk_b = b, walk_seen = Signature ` set certs, walk_foundChains = 0,
        walk_chain = initialChain 0 certs []\<rparr> = Some (err, w')"
    by blast
  with None show ?thesis by (simp add: fetchIntermediates_def)
next
  case (Some e)
  then show ?thesis by (simp add: fetchIntermediates_def)
qed

lemma verifiedChains_returns:
  "\<exists>r b'. verifiedChains env b certs cert = Some (r, b')"
proof -
  from fetchIntermediates_returns obtain err b' where
    "fetchIntermediates env b certs = Some (err, b')" by blast
  then show ?thesis
    by (auto simp: verifiedChains_def split: sum.splits option.splits)
qed

lemma Bundle_returns:
  "\<exists>r b'. Bundle env b certs key flavor = Some (r, b')"
proof -
  from verifiedChains_returns obtain r b' where
    "verifiedChains env b certs (certs ! 0) = Some (r, b')" by blast
  then show ?thesis
    by (auto simp: Bundle_def Let_def split: sum.splits option.splits)
qed

subsection \<open>The small infrastructure at work\<close>

lemma demo_stocked:
  "Bundle demoEnv demoBundlerStocked [demoLeaf, demoInt] None ''optimal''
     = Some (Inr (Some (demoBundle False)), demoBundlerStocked)"
  by code_simp

lemma demo_stocked_chains:
  "verifiedChains demoEnv demoBundlerStocked [demoLeaf, demoInt] ([demoLeaf, demoInt] ! 0)
     = Some (Inr [[demoLeaf, demoInt, demoRoot]], demoBundlerStocked)"
  by code_simp

lemma demo_fetched:
  "Bundle demoEnv demoBundler [demoLeaf] None ''optimal''
     = Some (Inr (Some (demoBundle True)), demoBundlerFetched)"
  by code_simp

lemma demo_anchored:
  "Bundle demoEnv demoBundlerAnchored [demoLeaf] None ''ubiquitous''
     = Some (Inr (Some (demoBundle True)), demoBundlerAnchored)"
  by code_simp

lemma demo_sha1:
  "Bundle demoEnv demoBundlerSHA1 [demoLeafSHA1, demoIntSHA1] None ''optimal''
     = Some (Inr (Some (demoBundleSHA1 [] [] 1)), demoBundlerSHA1)"
  by code_simp

lemma demo_sha1_untrusted:
  "Bundle demoEnvTwoPlatforms demoBundlerSHA1 [demoLeafSHA1, demoIntSHA1] None ''optimal''
     = Some (Inr (Some (demoBundleSHA1 [''OtherOS'']
          [''The bundle may not be trusted by the following platform(s): OtherOS.''] 3)),
        demoBundlerSHA1)"
  by code_simp

lemma demo_sha1_chains:
  "verifiedChains demoEnv demoBundlerSHA1 [demoLeafSHA1, demoIntSHA1]
       ([demoLeafSHA1, demoIntSHA1] ! 0)
     = Some (Inr [[demoLeafSHA1, demoIntSHA1, demoRootSHA1]], demoBundlerSHA1)"
  by code_simp

lemma demo_ranks: "ranksPassTests demoEnv"
  by code_simp

lemma demo_walk: "fetchLoop demoEnv demoWalk = Some (None, demoWalkEnd)"
  by code_simp

lemma demo_walk_offline:
  "fetchLoop (demoEnv\<lparr>Remote := []\<rparr>) demoWalk
     = Some (Some UnknownAuthorityError, demoWalk\<lparr>walk_chain := []\<rparr>)"
  by code_simp


section \<open>The claims\<close>

text \<open>
  Claim C1, as the code has it. \<^verbatim>\<open>Bundle\<close> sets the not-ubiquitous bit when
  \<^verbatim>\<open>ChainHashUbiquity\<close> of the selected chain (root included) is at most
  \<^verbatim>\<open>SHA2Ubiquity\<close>, or when a platform does not trust the root, and nowhere else.
  So for every bundle returned, the bit is set if and only if some certificate of
  the selected chain has a hash ubiquity of at most that of SHA-2, or some
  platform distrusts the chain's root; it is clear if and only if every
  certificate of the chain has a hash ubiquity above that of SHA-2 and every
  platform trusts the root. With SHA-1 ranked above SHA-2 and an unknown hash
  not above it, the bit is set if and only if some certificate of the chain is
  not SHA-1-signed or some platform distrusts the root. In particular the bit is
  set for a chain whose members are all SHA-2-signed, whichever platforms trust
  its root. The platforms listed in the status are those that distrust the root.
\<close>

theorem Bundle_not_ubiquitous:
  assumes "Bundle env b certs key flavor = Some (Inr (Some bundle), b')"
  defines "sel \<equiv> selectedChain env b certs flavor"
  shows "sel \<noteq> [] \<and> Chain bundle = butlast sel
       \<and> ((Code (Status bundle) AND BundleNotUbiquitousBit \<noteq> 0)
            \<longleftrightarrow> (\<exists>c\<in>set sel. hashUbiquity env c \<le> SHA2Ubiquity env)
                 \<or> (\<exists>p\<in>set (Platforms env). \<not> Trust p (last sel)))
       \<and> ((Code (Status bundle) AND BundleNotUbiquitousBit = 0)
            \<longleftrightarrow> (\<forall>c\<in>set sel. SHA2Ubiquity env < hashUbiquity env c)
                 \<and> (\<forall>p\<in>set (Platforms env). Trust p (last sel)))
       \<and> (SHA2Ubiquity env < SHA1Ubiquity env \<and> UnknownHashUbiquity env \<le> SHA2Ubiquity env
            \<longrightarrow> ((Code (Status bundle) AND BundleNotUbiquitousBit \<noteq> 0)
                   \<longleftrightarrow> (\<exists>c\<in>set sel. hashOf (SignatureAlgorithm c) \<noteq> HashSHA1)
                        \<or> (\<exists>p\<in>set (Platforms env). \<not> Trust p (last sel))))
       \<and> ((\<forall>c\<in>set sel. hashOf (SignatureAlgorithm c) = HashSHA2)
            \<longrightarrow> Code (Status bundle) AND BundleNotUbiquitousBit \<noteq> 0)
       \<and> Untrusted (Status bundle)
            = map Platform.Name (filter (\<lambda>p. \<not> Trust p (last sel)) (Platforms env))"
proof -
  from Bundle_SomeD [OF assms(1)] obtain cs where
    v: "verifiedChains env b certs (certs ! 0) = Some (Inr cs, b')" and
    a: "assemble env certs (certs ! 0) key flavor cs = Inr (Some bundle)" by blast
  have sel: "sel = matchingChainsOf env flavor cs ! 0"
    by (simp add: sel_def selectedChain_def v)
  note d = assemble_SomeD [OF a, folded sel]
  let ?bit = "Code (Status bundle) AND BundleNotUbiquitousBit"
  let ?weak = "\<exists>c\<in>set sel. hashUbiquity env c \<le> SHA2Ubiquity env"
  let ?distrust = "\<exists>p\<in>set (Platforms env). \<not> Trust p (last sel)"
  have bit: "?bit \<noteq> 0 \<longleftrightarrow> ?weak \<or> ?distrust"
    by (simp only: d(4) BundleStatus.simps statusOf_code code_not_ubiquitous_bit
          ChainHashUbiquity_le_iff [OF d(2)] UntrustedPlatforms_nonempty)
  have clear: "?bit = 0 \<longleftrightarrow> (\<forall>c\<in>set sel. SHA2Ubiquity env < hashUbiquity env c)
                     \<and> (\<forall>p\<in>set (Platforms env). Trust p (last sel))"
    using bit by (auto simp: not_le)
  have ranked: "SHA2Ubiquity env < SHA1Ubiquity env
                  \<and> UnknownHashUbiquity env \<le> SHA2Ubiquity env
                \<longrightarrow> (?bit \<noteq> 0
                       \<longleftrightarrow> (\<exists>c\<in>set sel. hashOf (SignatureAlgorithm c) \<noteq> HashSHA1)
                            \<or> ?distrust)"
    using bit by (simp add: hashUbiquity_le_SHA2_iff)
  have sha2: "(\<forall>c\<in>set sel. hashOf (SignatureAlgorithm c) = HashSHA2) \<longrightarrow> ?bit \<noteq> 0"
  proof
    assume all: "\<forall>c\<in>set sel. hashOf (SignatureAlgorithm c) = HashSHA2"
    from d(2) obtain c where c: "c \<in> set sel" by (cases sel) auto
    with all have "hashUbiquity env c \<le> SHA2Ubiquity env"
      by (simp add: hashUbiquity_SHA2)
    with c bit show "?bit \<noteq> 0" by blast
  qed
  have un: "Untrusted (Status bundle)
                = map Platform.Name (filter (\<lambda>p. \<not> Trust p (last sel)) (Platforms env))"
    by (simp add: d(4) UntrustedPlatforms_def)
  from d(2,3) bit clear ranked sha2 un show ?thesis
    by (intro conjI)
qed

text \<open>
  The theorem at three bundles of a leaf and an intermediate: all signed with
  SHA-1 and a root that the one platform trusts, the bit is clear; with a second
  platform that distrusts the root, the bit is set and the platform is listed;
  all signed with SHA-2, the bit is set.
\<close>

theorem Bundle_not_ubiquitous_witness:
  "Bundle demoEnv demoBundlerSHA1 [demoLeafSHA1, demoIntSHA1] None ''optimal''
     = Some (Inr (Some (demoBundleSHA1 [] [] 1)), demoBundlerSHA1)
   \<and> selectedChain demoEnv demoBundlerSHA1 [demoLeafSHA1, demoIntSHA1] ''optimal''
       = [demoLeafSHA1, demoIntSHA1, demoRootSHA1]
   \<and> map (hashUbiquity demoEnv) [demoLeafSHA1, demoIntSHA1, demoRootSHA1] = [100, 100, 100]
   \<and> SHA2Ubiquity demoEnv = 70
   \<and> UntrustedPlatforms demoEnv demoRootSHA1 = []
   \<and> Code (Status (demoBundleSHA1 [] [] 1)) AND BundleNotUbiquitousBit = 0
   \<and> Bundle demoEnvTwoPlatforms demoBundlerSHA1 [demoLeafSHA1, demoIntSHA1] None ''optimal''
     = Some (Inr (Some (demoBundleSHA1 [''OtherOS'']
          [''The bundle may not be trusted by the following platform(s): OtherOS.''] 3)),
        demoBundlerSHA1)
   \<and> UntrustedPlatforms demoEnvTwoPlatforms demoRootSHA1 = [''OtherOS'']
   \<and> Code (Status (demoBundleSHA1 [''OtherOS'']
          [''The bundle may not be trusted by the following platform(s): OtherOS.''] 3))
        AND BundleNotUbiquitousBit \<noteq> 0
   \<and> Bundle demoEnv demoBundlerStocked [demoLeaf, demoInt] None ''optimal''
     = Some (Inr (Some (demoBundle False)), demoBundlerStocked)
   \<and> selectedChain demoEnv demoBundlerStocked [demoLeaf, demoInt] ''optimal''
       = [demoLeaf, demoInt, demoRoot]
   \<and> map (hashOf \<circ> SignatureAlgorithm) [demoLeaf, demoInt, demoRoot]
       = [HashSHA2, HashSHA2, HashSHA2]
   \<and> Code (Status (demoBundle False)) AND BundleNotUbiquitousBit \<noteq> 0"
proof -
  have s1: "selectedChain demoEnv demoBundlerSHA1 [demoLeafSHA1, demoIntSHA1] ''optimal''
       = [demoLeafSHA1, demoIntSHA1, demoRootSHA1]"
    by code_simp
  have s2: "selectedChain demoEnvTwoPlatforms demoBundlerSHA1 [demoLeafSHA1, demoIntSHA1]
       ''optimal'' = [demoLeafSHA1, demoIntSHA1, demoRootSHA1]"
    by code_simp
  have s3: "selectedChain demoEnv demoBundlerStocked [demoLeaf, demoInt] ''optimal''
       = [demoLeaf, demoInt, demoRoot]"
    by code_simp
  have h1: "map (hashUbiquity demoEnv) [demoLeafSHA1, demoIntSHA1, demoRootSHA1]
       = [100, 100, 100]"
    and h2: "SHA2Ubiquity demoEnv = 70"
    and u1: "UntrustedPlatforms demoEnv demoRootSHA1 = []"
    and u2: "UntrustedPlatforms demoEnvTwoPlatforms demoRootSHA1 = [''OtherOS'']"
    and h3: "map (hashOf \<circ> SignatureAlgorithm) [demoLeaf, demoInt, demoRoot]
       = [HashSHA2, HashSHA2, HashSHA2]"
    by code_simp+
  have p1: "(\<forall>c\<in>set [demoLeafSHA1, demoIntSHA1, demoRootSHA1].
               SHA2Ubiquity demoEnv < hashUbiquity demoEnv c)
          \<and> (\<forall>p\<in>set (Platforms demoEnv).
               Trust p (last [demoLeafSHA1, demoIntSHA1, demoRootSHA1]))"
    by code_simp
  have p2: "(\<exists>c\<in>set [demoLeafSHA1, demoIntSHA1, demoRootSHA1].
               hashUbiquity demoEnvTwoPlatforms c \<le> SHA2Ubiquity demoEnvTwoPlatforms)
          \<or> (\<exists>p\<in>set (Platforms demoEnvTwoPlatforms).
               \<not> Trust p (last [demoLeafSHA1, demoIntSHA1, demoRootSHA1]))"
    by code_simp
  have p3: "\<forall>c\<in>set [demoLeaf, demoInt, demoRoot]. hashOf (SignatureAlgorithm c) = HashSHA2"
    by code_simp
  note t1 = Bundle_not_ubiquitous [OF demo_sha1, unfolded s1]
  note t2 = Bundle_not_ubiquitous [OF demo_sha1_untrusted, unfolded s2]
  note t3 = Bundle_not_ubiquitous [OF demo_stocked, unfolded s3]
  have b1: "Code (Status (demoBundleSHA1 [] [] 1)) AND BundleNotUbiquitousBit = 0"
    by (rule t1 [THEN conjunct2, THEN conjunct2, THEN conjunct2, THEN conjunct1,
                 THEN iffD2, OF p1])
  have b2: "Code (Status (demoBundleSHA1 [''OtherOS'']
          [''The bundle may not be trusted by the following platform(s): OtherOS.''] 3))
        AND BundleNotUbiquitousBit \<noteq> 0"
    by (rule t2 [THEN conjunct2, THEN conjunct2, THEN conjunct1, THEN iffD2, OF p2])
  have b3: "Code (Status (demoBundle False)) AND BundleNotUbiquitousBit \<noteq> 0"
    by (rule t3 [THEN conjunct2, THEN conjunct2, THEN conjunct2, THEN conjunct2,
                 THEN conjunct2, THEN conjunct1, THEN mp, OF p3])
  from demo_sha1 s1 h1 h2 u1 b1 demo_sha1_untrusted u2 b2 demo_stocked s3 h3 b3
  show ?thesis by (intro conjI)
qed

text \<open>
  Against claim C1 as it is stated: the chain of the leaf, the intermediate and
  the root has SHA-2 signatures only, the one platform trusts its root, and the
  bundle has the not-ubiquitous bit set.
\<close>

theorem Bundle_not_ubiquitous_counterexample:
  "Bundle demoEnv demoBundlerStocked [demoLeaf, demoInt] None ''optimal''
     = Some (Inr (Some (demoBundle False)), demoBundlerStocked)
   \<and> verifiedChains demoEnv demoBundlerStocked [demoLeaf, demoInt] demoLeaf
       = Some (Inr [[demoLeaf, demoInt, demoRoot]], demoBundlerStocked)
   \<and> map SignatureAlgorithm [demoLeaf, demoInt, demoRoot]
       = [ECDSAWithSHA256, ECDSAWithSHA256, ECDSAWithSHA256]
   \<and> UntrustedPlatforms demoEnv demoRoot = []
   \<and> Code (Status (demoBundle False)) AND BundleNotUbiquitousBit \<noteq> 0"
  by code_simp

text \<open>
  Claim C2, as the code has it. During the verification of a partial chain, a
  self-signed certificate at the top of the chain (its first element), not
  already known and accepted by the verifier, is passed over: it is neither
  admitted into the intermediate pool nor written to the stash. The verification
  goes on with the rest of the chain from the same bundler, and what it adds to
  the pool and to the stash comes from the rest.
\<close>

theorem verifyChain_top_root_not_stored:
  assumes "Signature (Cert first) \<notin> KnownIssuers b"
    and "\<not> isl (VerifyWith env b (Cert first))"
    and "isSelfSigned env (Cert first)"
  shows "verifyChain env b (first # rest) = verifyChain_loop env (first # rest) b rest
       \<and> verifyChain env b [first] = (True, b)
       \<and> set (IntermediatePool (snd (verifyChain env b (first # rest))))
            \<subseteq> set (IntermediatePool b) \<union> Cert ` set rest
       \<and> set (StashWrites (snd (verifyChain env b (first # rest))))
            \<subseteq> set (StashWrites b) \<union> (\<lambda>f. (Name f, Raw (Cert f))) ` set rest"
proof -
  have skip: "verifyChain env b (first # rest') = verifyChain_loop env (first # rest') b rest'"
    for rest'
    using assms by (simp add: verifyChain_def isChainRootNode_def)
  from skip [of "[]"] have single: "verifyChain env b [first] = (True, b)" by simp
  from verifyChain_loop_effects [of env "first # rest" b rest] skip [of rest] single
  show ?thesis by simp
qed

text \<open>
  The theorem at the partial chain of the reissued root, the intermediate and the
  leaf: the intermediate and the leaf are admitted, the reissued root is not.
\<close>

theorem verifyChain_top_root_not_stored_witness:
  "Signature (Cert (hd demoPartialChain)) \<notin> KnownIssuers demoBundler
   \<and> \<not> isl (VerifyWith demoEnv demoBundler (Cert (hd demoPartialChain)))
   \<and> isSelfSigned demoEnv (Cert (hd demoPartialChain))
   \<and> set (IntermediatePool (snd (verifyChain demoEnv demoBundler
              (hd demoPartialChain # tl demoPartialChain))))
        \<subseteq> set (IntermediatePool demoBundler) \<union> Cert ` set (tl demoPartialChain)
   \<and> set (StashWrites (snd (verifyChain demoEnv demoBundler
              (hd demoPartialChain # tl demoPartialChain))))
        \<subseteq> set (StashWrites demoBundler)
            \<union> (\<lambda>f. (Name f, Raw (Cert f))) ` set (tl demoPartialChain)"
proof -
  have h1: "Signature (Cert (hd demoPartialChain)) \<notin> KnownIssuers demoBundler"
    by code_simp
  have h2: "\<not> isl (VerifyWith demoEnv demoBundler (Cert (hd demoPartialChain)))"
    by code_simp
  have h3: "isSelfSigned demoEnv (Cert (hd demoPartialChain))"
    by code_simp
  from verifyChain_top_root_not_stored [OF h1 h2 h3, of "tl demoPartialChain"] h1 h2 h3
  show ?thesis by blast
qed

text \<open>
  Against claim C2 as it is stated: the reissued root at the top of the partial
  chain is self-signed, unknown and verified, the chain is verified, and the
  reissued root is not in the intermediate pool afterwards.
\<close>

theorem verifyChain_top_root_counterexample:
  "Cert (hd demoPartialChain) = demoRootReissued
   \<and> isSelfSigned demoEnv demoRootReissued
   \<and> Signature demoRootReissued \<notin> KnownIssuers demoBundler
   \<and> fst (verifyChain demoEnv demoBundler demoPartialChain)
   \<and> demoRootReissued
        \<notin> set (IntermediatePool (snd (verifyChain demoEnv demoBundler demoPartialChain)))
   \<and> IntermediatePool (snd (verifyChain demoEnv demoBundler demoPartialChain))
        = [demoInt, demoLeaf]"
  by code_simp

text \<open>
  Claim C3 fails on the code: \<^verbatim>\<open>Bundle\<close> with an empty certificate list panics,
  since it reads \<^verbatim>\<open>certs[0]\<close> for its log line before it tests the length. The
  theorem is what the code does.
\<close>

theorem Bundle_empty_panics:
  "Bundle env b [] key flavor = Some (Inl (Panic ''index out of range''), b)"
  by (simp add: Bundle_def)

theorem Bundle_empty_panics_witness:
  "Bundle demoEnv demoBundler [] None ''optimal''
     = Some (Inl (Panic ''index out of range''), demoBundler)"
  by (rule Bundle_empty_panics)

text \<open>
  Claim C4. For every bundle returned, \<^verbatim>\<open>IsRebundled\<close> is true if and only if
  the length of the output chain differs from the number of input certificates,
  or at some index the signatures of the output and the input certificate
  differ.
\<close>

theorem Bundle_IsRebundled:
  assumes "Bundle env b certs key flavor = Some (Inr (Some bundle), b')"
  shows "IsRebundled (Status bundle) \<longleftrightarrow>
           length (Chain bundle) \<noteq> length certs
           \<or> (\<exists>i. i < length (Chain bundle) \<and> i < length certs
                  \<and> Signature (Chain bundle ! i) \<noteq> Signature (certs ! i))"
proof -
  from Bundle_SomeD [OF assms] obtain cs where
    a: "assemble env certs (certs ! 0) key flavor cs = Inr (Some bundle)" by blast
  have "IsRebundled (Status bundle) = isDifferent certs (Chain bundle)"
    by (simp add: assemble_SomeD(3,4) [OF a])
  also have "\<dots> \<longleftrightarrow> length (Chain bundle) \<noteq> length certs
           \<or> (\<exists>i. i < length (Chain bundle) \<and> i < length certs
                  \<and> Signature (Chain bundle ! i) \<noteq> Signature (certs ! i))"
    by (auto simp: isDifferent_def list_ex_iff Bex_def)
  finally show ?thesis .
qed

text \<open>
  The theorem at the bundle that the AIA walk completes from the leaf alone: two
  certificates for one, rebundled.
\<close>

theorem Bundle_IsRebundled_witness:
  "Bundle demoEnv demoBundler [demoLeaf] None ''optimal''
     = Some (Inr (Some (demoBundle True)), demoBundlerFetched)
   \<and> (IsRebundled (Status (demoBundle True)) \<longleftrightarrow>
           length (Chain (demoBundle True)) \<noteq> length [demoLeaf]
           \<or> (\<exists>i. i < length (Chain (demoBundle True)) \<and> i < length [demoLeaf]
                  \<and> Signature (Chain (demoBundle True) ! i) \<noteq> Signature ([demoLeaf] ! i)))
   \<and> IsRebundled (Status (demoBundle True))
   \<and> length (Chain (demoBundle True)) \<noteq> length [demoLeaf]"
proof -
  have "IsRebundled (Status (demoBundle True))"
    and "length (Chain (demoBundle True)) \<noteq> length [demoLeaf]"
    by (simp_all add: demoBundle_def)
  with Bundle_IsRebundled [OF demo_fetched] demo_fetched show ?thesis by blast
qed

text \<open>
  Claim C5. With a private key supplied: on a leaf whose public key algorithm is
  RSA, a key that is not an RSA key, or an RSA key whose modulus differs from the
  leaf's, gives the error \<^verbatim>\<open>KeyMismatch\<close>; on a leaf whose algorithm is ECDSA, a
  key that is not an ECDSA key, or an ECDSA key whose X coordinate differs from
  the leaf's, gives \<^verbatim>\<open>KeyMismatch\<close>. On a leaf whose algorithm is neither, the
  error is \<^verbatim>\<open>NotRSAOrECC\<close>, with or without a key. The bundler is unchanged.
\<close>

theorem Bundle_key_pairing:
  assumes "certs \<noteq> []"
  shows "(PublicKeyAlgorithm (hd certs) = RSA \<and> key = Some k \<and> (\<forall>n. k \<noteq> RSAPrivateKey n)
            \<longrightarrow> Bundle env b certs key flavor
                  = Some (Inl (Error PrivateKeyError KeyMismatch None), b))
       \<and> (PublicKeyAlgorithm (hd certs) = RSA \<and> PublicKey (hd certs) = RSAPublicKey m
            \<and> key = Some (RSAPrivateKey n) \<and> m \<noteq> n
            \<longrightarrow> Bundle env b certs key flavor
                  = Some (Inl (Error PrivateKeyError KeyMismatch None), b))
       \<and> (PublicKeyAlgorithm (hd certs) = ECDSA \<and> key = Some k
            \<and> (\<forall>curve x y. k \<noteq> ECDSAPrivateKey curve x y)
            \<longrightarrow> Bundle env b certs key flavor
                  = Some (Inl (Error PrivateKeyError KeyMismatch None), b))
       \<and> (PublicKeyAlgorithm (hd certs) = ECDSA
            \<and> PublicKey (hd certs) = ECDSAPublicKey curve' x' y'
            \<and> key = Some (ECDSAPrivateKey curve x y) \<and> x' \<noteq> x
            \<longrightarrow> Bundle env b certs key flavor
                  = Some (Inl (Error PrivateKeyError KeyMismatch None), b))
       \<and> (PublicKeyAlgorithm (hd certs) \<noteq> RSA \<and> PublicKeyAlgorithm (hd certs) \<noteq> ECDSA
            \<longrightarrow> Bundle env b certs key flavor
                  = Some (Inl (Error PrivateKeyError NotRSAOrECC None), b))"
proof -
  from assms have c0: "certs ! 0 = hd certs" "0 < length certs" "length certs \<noteq> 0"
    by (simp_all add: hd_conv_nth)
  show ?thesis
    unfolding Bundle_def Let_def c0
    using c0(2,3)
    by (cases k) (auto simp: checkKeyPair_def split: option.splits PrivateKey.splits)
qed

text \<open>
  The theorem at the ECDSA leaf with an RSA key and with an ECDSA key of another
  point, and at a leaf with a DSA key, without a private key.
\<close>

theorem Bundle_key_pairing_witness:
  "[demoLeaf] \<noteq> []
   \<and> Bundle demoEnv demoBundler [demoLeaf] (Some (RSAPrivateKey 3233)) ''optimal''
       = Some (Inl (Error PrivateKeyError KeyMismatch None), demoBundler)
   \<and> Bundle demoEnv demoBundler [demoLeaf] (Some (ECDSAPrivateKey P256 5 6)) ''optimal''
       = Some (Inl (Error PrivateKeyError KeyMismatch None), demoBundler)
   \<and> Bundle demoEnv demoBundler [demoLeaf\<lparr>PublicKeyAlgorithm := DSA\<rparr>] None ''optimal''
       = Some (Inl (Error PrivateKeyError NotRSAOrECC None), demoBundler)"
proof -
  have ne: "[c] \<noteq> []" for c :: Certificate by simp
  have alg: "PublicKeyAlgorithm (hd [demoLeaf]) = ECDSA"
    and pk: "PublicKey (hd [demoLeaf]) = ECDSAPublicKey P256 31 32"
    and dsa: "PublicKeyAlgorithm (hd [demoLeaf\<lparr>PublicKeyAlgorithm := DSA\<rparr>]) = DSA"
    by (simp_all add: demoLeaf_def)
  from Bundle_key_pairing [OF ne, of demoLeaf "Some (RSAPrivateKey 3233)" "RSAPrivateKey 3233"
      demoEnv demoBundler "''optimal''"] alg
  have 1: "Bundle demoEnv demoBundler [demoLeaf] (Some (RSAPrivateKey 3233)) ''optimal''
       = Some (Inl (Error PrivateKeyError KeyMismatch None), demoBundler)"
    by simp
  from Bundle_key_pairing [OF ne, of demoLeaf "Some (ECDSAPrivateKey P256 5 6)" _
      demoEnv demoBundler "''optimal''" _ _ P256 31 32 P256 5 6] alg pk
  have 2: "Bundle demoEnv demoBundler [demoLeaf] (Some (ECDSAPrivateKey P256 5 6)) ''optimal''
       = Some (Inl (Error PrivateKeyError KeyMismatch None), demoBundler)"
    by simp
  from Bundle_key_pairing [OF ne, of "demoLeaf\<lparr>PublicKeyAlgorithm := DSA\<rparr>" None _
      demoEnv demoBundler "''optimal''"] dsa
  have 3: "Bundle demoEnv demoBundler [demoLeaf\<lparr>PublicKeyAlgorithm := DSA\<rparr>] None ''optimal''
       = Some (Inl (Error PrivateKeyError NotRSAOrECC None), demoBundler)"
    by simp
  from 1 2 3 show ?thesis by simp
qed

text \<open>
  Claim C6, as the code has it. For every bundle returned, the output chain is
  the first chain that survives the filters of the flavor, one of the verifier's
  chains, with its final element removed. Only that element is removed: the
  output chain has no certificate of the root pool when no chain of the verifier
  has one before its final element.
\<close>

theorem Bundle_chain_strips_last:
  assumes "Bundle env b certs key flavor = Some (Inr (Some bundle), b')"
  shows "\<exists>cs. verifiedChains env b certs (certs ! 0) = Some (Inr cs, b')
           \<and> matchingChainsOf env flavor cs \<noteq> []
           \<and> hd (matchingChainsOf env flavor cs) \<in> set cs
           \<and> Chain bundle = butlast (hd (matchingChainsOf env flavor cs))
           \<and> ((\<forall>ch\<in>set cs. \<forall>c\<in>set (butlast ch). c \<notin> set (RootPool b'))
                 \<longrightarrow> (\<forall>c\<in>set (Chain bundle). c \<notin> set (RootPool b')))"
proof -
  from Bundle_SomeD [OF assms] obtain cs where
    v: "verifiedChains env b certs (certs ! 0) = Some (Inr cs, b')" and
    a: "assemble env certs (certs ! 0) key flavor cs = Inr (Some bundle)" by blast
  note d = assemble_SomeD [OF a]
  have hd0: "matchingChainsOf env flavor cs ! 0 = hd (matchingChainsOf env flavor cs)"
    using d(1) by (simp add: hd_conv_nth)
  have mem: "hd (matchingChainsOf env flavor cs) \<in> set cs"
    using d(1) set_matchingChainsOf [of env flavor cs] by (meson hd_in_set subsetD)
  have ch: "Chain bundle = butlast (hd (matchingChainsOf env flavor cs))"
    using d(3) by (simp only: hd0)
  have free: "(\<forall>ch\<in>set cs. \<forall>c\<in>set (butlast ch). c \<notin> set (RootPool b'))
                 \<longrightarrow> (\<forall>c\<in>set (Chain bundle). c \<notin> set (RootPool b'))"
    using mem unfolding ch by blast
  from v d(1) mem ch free show ?thesis by blast
qed

text \<open>
  The theorem at the bundle from the bundler that has the intermediate in its
  intermediate pool only: the verifier's one chain has the root at its end alone,
  and the output chain has no certificate of the root pool.
\<close>

theorem Bundle_chain_strips_last_witness:
  "Bundle demoEnv demoBundlerStocked [demoLeaf, demoInt] None ''optimal''
     = Some (Inr (Some (demoBundle False)), demoBundlerStocked)
   \<and> verifiedChains demoEnv demoBundlerStocked [demoLeaf, demoInt] ([demoLeaf, demoInt] ! 0)
       = Some (Inr [[demoLeaf, demoInt, demoRoot]], demoBundlerStocked)
   \<and> set (butlast [demoLeaf, demoInt, demoRoot]) \<inter> set (RootPool demoBundlerStocked) = {}
   \<and> set (Chain (demoBundle False)) \<inter> set (RootPool demoBundlerStocked) = {}"
proof -
  have pre: "\<forall>ch\<in>set [[demoLeaf, demoInt, demoRoot]].
         \<forall>c\<in>set (butlast ch). c \<notin> set (RootPool demoBundlerStocked)"
    by code_simp
  from Bundle_chain_strips_last [OF demo_stocked] obtain cs where
    "verifiedChains demoEnv demoBundlerStocked [demoLeaf, demoInt] ([demoLeaf, demoInt] ! 0)
       = Some (Inr cs, demoBundlerStocked)"
    and imp: "(\<forall>ch\<in>set cs. \<forall>c\<in>set (butlast ch). c \<notin> set (RootPool demoBundlerStocked))
       \<longrightarrow> (\<forall>c\<in>set (Chain (demoBundle False)). c \<notin> set (RootPool demoBundlerStocked))"
    by blast
  with demo_stocked_chains have "cs = [[demoLeaf, demoInt, demoRoot]]" by simp
  with imp pre have "\<forall>c\<in>set (Chain (demoBundle False)). c \<notin> set (RootPool demoBundlerStocked)"
    by blast
  then have post: "set (Chain (demoBundle False)) \<inter> set (RootPool demoBundlerStocked) = {}"
    by blast
  from pre have pre': "set (butlast [demoLeaf, demoInt, demoRoot])
      \<inter> set (RootPool demoBundlerStocked) = {}"
    by (simp only: list.set ball_simps) blast
  from demo_stocked demo_stocked_chains pre' post show ?thesis by (intro conjI)
qed

text \<open>
  Against claim C6 as it is stated: with the intermediate also among the roots,
  the verifier finds the chain through the intermediate to the root that the
  platform trusts, the ubiquitous flavor selects it, and the output chain holds
  the intermediate, a certificate of the root pool. So does the output chain of
  the intermediate bundled as a leaf, whose one chain ends at the root.
\<close>

theorem Bundle_chain_root_counterexample:
  "Bundle demoEnv demoBundlerAnchored [demoLeaf] None ''ubiquitous''
     = Some (Inr (Some (demoBundle True)), demoBundlerAnchored)
   \<and> verifiedChains demoEnv demoBundlerAnchored [demoLeaf] demoLeaf
       = Some (Inr [[demoLeaf, demoInt], [demoLeaf, demoInt, demoRoot]], demoBundlerAnchored)
   \<and> demoInt \<in> set (Chain (demoBundle True))
   \<and> demoInt \<in> set (RootPool demoBundlerAnchored)
   \<and> verifiedChains demoEnv demoBundlerAnchored [demoInt] demoInt
       = Some (Inr [[demoInt, demoRoot]], demoBundlerAnchored)
   \<and> chainOf (Bundle demoEnv demoBundlerAnchored [demoInt] None ''optimal'') = Some [demoInt]"
  by code_simp

text \<open>
  Claim C7. For every list of chains, the optimal flavor is the cascade of
  \<^verbatim>\<open>CompareChainLength\<close>, \<^verbatim>\<open>CompareChainExpiry\<close> and \<^verbatim>\<open>CompareChainCryptoSuite\<close>, in
  that order; the ubiquitous flavor is the cascade of \<^verbatim>\<open>ComparePlatformUbiquity\<close>,
  \<^verbatim>\<open>CompareChainLength\<close>, \<^verbatim>\<open>CompareChainHashUbiquity\<close>,
  \<^verbatim>\<open>CompareChainKeyAlgoUbiquity\<close> and \<^verbatim>\<open>CompareExpiryUbiquity\<close>, in that order, and
  then the optimal cascade.
\<close>

theorem flavor_cascades:
  "optimalChains env cs
     = cascade [CompareChainLength, CompareChainExpiry, CompareChainCryptoSuite env] cs
   \<and> ubiquitousChains env cs
     = cascade [ComparePlatformUbiquity env, CompareChainLength, CompareChainHashUbiquity env,
                CompareChainKeyAlgoUbiquity env, CompareExpiryUbiquity env,
                CompareChainLength, CompareChainExpiry, CompareChainCryptoSuite env] cs
   \<and> ubiquitousChains env cs
     = optimalChains env
         (cascade [ComparePlatformUbiquity env, CompareChainLength, CompareChainHashUbiquity env,
                   CompareChainKeyAlgoUbiquity env, CompareExpiryUbiquity env] cs)"
  by (simp add: optimalChains_def ubiquitousChains_def cascade_def Let_def)

text \<open>
  The theorem at the two chains of the leaf when the intermediate is also a root:
  the optimal flavor keeps the shorter, the ubiquitous flavor the one that the
  platform trusts.
\<close>

theorem flavor_cascades_witness:
  "optimalChains demoEnv [[demoLeaf, demoInt], [demoLeaf, demoInt, demoRoot]]
     = [[demoLeaf, demoInt]]
   \<and> cascade [CompareChainLength, CompareChainExpiry, CompareChainCryptoSuite demoEnv]
       [[demoLeaf, demoInt], [demoLeaf, demoInt, demoRoot]] = [[demoLeaf, demoInt]]
   \<and> ubiquitousChains demoEnv [[demoLeaf, demoInt], [demoLeaf, demoInt, demoRoot]]
     = [[demoLeaf, demoInt, demoRoot]]
   \<and> cascade [ComparePlatformUbiquity demoEnv, CompareChainLength,
                CompareChainHashUbiquity demoEnv,
                CompareChainKeyAlgoUbiquity demoEnv, CompareExpiryUbiquity demoEnv,
                CompareChainLength, CompareChainExpiry, CompareChainCryptoSuite demoEnv]
       [[demoLeaf, demoInt], [demoLeaf, demoInt, demoRoot]] = [[demoLeaf, demoInt, demoRoot]]"
proof -
  have o: "optimalChains demoEnv [[demoLeaf, demoInt], [demoLeaf, demoInt, demoRoot]]
     = [[demoLeaf, demoInt]]"
    by code_simp
  have u: "ubiquitousChains demoEnv [[demoLeaf, demoInt], [demoLeaf, demoInt, demoRoot]]
     = [[demoLeaf, demoInt, demoRoot]]"
    by code_simp
  from flavor_cascades [of demoEnv "[[demoLeaf, demoInt], [demoLeaf, demoInt, demoRoot]]"] o u
  show ?thesis by simp
qed

text \<open>
  Claim C8. For every bundle returned, the expiring bit is set exactly when some
  certificate of the output chain has its NotAfter less than 30 \<times> 24 hours after
  the current time; the warning, the first message then, lists the 1-based
  positions of all such certificates; and \<^verbatim>\<open>ExpiringSKIs\<close> holds the
  \<^verbatim>\<open>SubjectKeyId\<close> of each of them in upper-case hexadecimal digits, in chain
  order.
\<close>

theorem Bundle_expiring:
  assumes "Bundle env b certs key flavor = Some (Inr (Some bundle), b')"
  shows "((Code (Status bundle) AND BundleExpiringBit \<noteq> 0)
            \<longleftrightarrow> (\<exists>c\<in>set (Chain bundle). isExpiring env c))
       \<and> ((\<exists>c\<in>set (Chain bundle). isExpiring env c) \<longrightarrow>
            hd (Messages (Status bundle)) =
              expiringWarningStub
              @ (if 1 < length (expiringPositions env (Chain bundle))
                 then ''The expiring certs are'' else ''The expiring cert is'')
              @ concat (map (\<lambda>p. '' #'' @ Itoa (int p)) (expiringPositions env (Chain bundle)))
              @ '' in the chain.'')
       \<and> ExpiringSKIs (Status bundle)
            = map (\<lambda>c. SprintfX (SubjectKeyId c)) (filter (isExpiring env) (Chain bundle))
       \<and> (\<forall>ski\<in>set (ExpiringSKIs (Status bundle)). set ski \<subseteq> set ''0123456789ABCDEF'')"
proof -
  from Bundle_SomeD [OF assms] obtain cs where
    a: "assemble env certs (certs ! 0) key flavor cs = Inr (Some bundle)" by blast
  define sel where "sel = matchingChainsOf env flavor cs ! 0"
  define ex where "ex = checkExpiringCerts env (Chain bundle)"
  note d = assemble_SomeD [OF a, folded sel_def]
  have ch: "butlast sel = Chain bundle" by (simp add: d(3))
  have ex_ne: "ex \<noteq> [] \<longleftrightarrow> (\<exists>c\<in>set (Chain bundle). isExpiring env c)"
  proof -
    have "ex \<noteq> [] \<longleftrightarrow> map ((!) (Chain bundle)) ex \<noteq> []" by simp
    also have "map ((!) (Chain bundle)) ex = filter (isExpiring env) (Chain bundle)"
      unfolding ex_def checkExpiringCerts_eq by (rule nths_filter_upt)
    finally show ?thesis by (auto simp: filter_empty_conv)
  qed
  have code: "Code (Status bundle) AND BundleExpiringBit \<noteq> 0 \<longleftrightarrow> ex \<noteq> []"
    by (simp only: d(4) ch BundleStatus.simps statusOf_code code_expiring_bit ex_def)
  have pos: "map (\<lambda>i. '' #'' @ Itoa (int i + 1)) ex
      = map (\<lambda>p. '' #'' @ Itoa (int p)) (expiringPositions env (Chain bundle))"
    by (simp add: ex_def checkExpiringCerts_eq expiringPositions_def comp_def add.commute)
  have len: "length (expiringPositions env (Chain bundle)) = length ex"
    by (simp add: ex_def checkExpiringCerts_eq expiringPositions_def)
  have msg: "ex \<noteq> [] \<Longrightarrow> hd (Messages (Status bundle)) = expirationWarning ex"
    by (simp add: d(4) ch statusOf_messages ex_def)
  have skis: "ExpiringSKIs (Status bundle)
            = map (\<lambda>c. SprintfX (SubjectKeyId c)) (filter (isExpiring env) (Chain bundle))"
    by (simp add: d(4) ch)
  have hex: "\<forall>ski\<in>set (ExpiringSKIs (Status bundle)). set ski \<subseteq> set ''0123456789ABCDEF''"
    unfolding skis using SprintfX_chars by (simp only: set_map ball_simps) blast
  show ?thesis
    using code ex_ne msg skis hex expirationWarning_eq [of ex]
    by (simp only: pos len) blast
qed

text \<open>
  The theorem at the bundle that the AIA walk completes: the intermediate, second
  in the chain, expires in fifteen days.
\<close>

theorem Bundle_expiring_witness:
  "Bundle demoEnv demoBundler [demoLeaf] None ''optimal''
     = Some (Inr (Some (demoBundle True)), demoBundlerFetched)
   \<and> filter (isExpiring demoEnv) (Chain (demoBundle True)) = [demoInt]
   \<and> expiringPositions demoEnv (Chain (demoBundle True)) = [2]
   \<and> Code (Status (demoBundle True)) AND BundleExpiringBit \<noteq> 0
   \<and> hd (Messages (Status (demoBundle True)))
       = ''The bundle is expiring within 30 days. The expiring cert is #2 in the chain.''
   \<and> ExpiringSKIs (Status (demoBundle True)) = [''0BE2'']"
proof -
  have f: "filter (isExpiring demoEnv) (Chain (demoBundle True)) = [demoInt]"
    by code_simp
  have p: "expiringPositions demoEnv (Chain (demoBundle True)) = [2]"
    by code_simp
  have s: "SprintfX (SubjectKeyId demoInt) = ''0BE2''"
    by code_simp
  have i: "Itoa 2 = ''2''"
    by code_simp
  have e: "\<exists>c\<in>set (Chain (demoBundle True)). isExpiring demoEnv c"
    using f by (metis filter_empty_conv list.distinct(1))
  from Bundle_expiring [OF demo_fetched] e
  have "Code (Status (demoBundle True)) AND BundleExpiringBit \<noteq> 0"
    and "hd (Messages (Status (demoBundle True))) =
              expiringWarningStub
              @ (if 1 < length (expiringPositions demoEnv (Chain (demoBundle True)))
                 then ''The expiring certs are'' else ''The expiring cert is'')
              @ concat (map (\<lambda>p. '' #'' @ Itoa (int p))
                          (expiringPositions demoEnv (Chain (demoBundle True))))
              @ '' in the chain.''"
    and "ExpiringSKIs (Status (demoBundle True))
            = map (\<lambda>c. SprintfX (SubjectKeyId c))
                (filter (isExpiring demoEnv) (Chain (demoBundle True)))"
    by blast+
  with demo_fetched f p s i show ?thesis
    by (simp add: expiringWarningStub_def)
qed

text \<open>
  Claim C9. The Remote list of the environment is the finite issuer graph that
  AIA fetches reach. From every state of the walk the loop of
  \<^verbatim>\<open>fetchIntermediates\<close> returns, with the chain empty; it returns
  \<^verbatim>\<open>UnknownAuthorityError\<close> if and only if the count of found chains is zero, and
  no error otherwise. Every iteration either pops the top element, or prepends a
  fetched certificate whose signature and URL were unseen and marks both seen;
  either way the measure of the walk decreases.
\<close>

theorem fetchLoop_terminates:
  "(\<exists>err w'. fetchLoop env w = Some (err, w')
       \<and> (err = Some UnknownAuthorityError \<longleftrightarrow> walk_foundChains w' = 0)
       \<and> (err = None \<longleftrightarrow> walk_foundChains w' \<noteq> 0)
       \<and> walk_foundChains w \<le> walk_foundChains w' \<and> walk_chain w' = [])
   \<and> (walk_chain w \<noteq> [] \<longrightarrow>
         (walk_chain (fetchStep env w) = tl (walk_chain w)
            \<and> walk_seen (fetchStep env w) = walk_seen w)
         \<or> (\<exists>url crt. walk_chain (fetchStep env w) = crt # walk_chain w
               \<and> url \<notin> walk_seen w \<and> Signature (Cert crt) \<notin> walk_seen w
               \<and> url \<in> fst ` set (Remote env)
               \<and> walk_seen (fetchStep env w)
                   = insert (Signature (Cert crt)) (insert url (walk_seen w))))
   \<and> (walk_chain w \<noteq> [] \<longrightarrow> walkMeasure env (fetchStep env w) < walkMeasure env w)"
  using fetchLoop_returns [of env w] fetchStep_cases [of w env] fetchStep_measure [of w env]
  by blast

text \<open>
  The theorem at the walk from the leaf alone: with the intermediate on the
  network two chains are found and no error is returned; without it none is found
  and the error is \<^verbatim>\<open>UnknownAuthorityError\<close>.
\<close>

theorem fetchLoop_terminates_witness:
  "walk_chain demoWalk \<noteq> []
   \<and> fetchLoop demoEnv demoWalk = Some (None, demoWalkEnd)
   \<and> walk_foundChains demoWalkEnd = 2
   \<and> walkMeasure demoEnv (fetchStep demoEnv demoWalk) < walkMeasure demoEnv demoWalk
   \<and> fetchLoop (demoEnv\<lparr>Remote := []\<rparr>) demoWalk
       = Some (Some UnknownAuthorityError, demoWalk\<lparr>walk_chain := []\<rparr>)
   \<and> walk_foundChains (demoWalk\<lparr>walk_chain := []\<rparr>) = 0"
proof -
  have ne: "walk_chain demoWalk \<noteq> []"
    by code_simp
  have f: "walk_foundChains demoWalkEnd = 2" "walk_foundChains (demoWalk\<lparr>walk_chain := []\<rparr>) = 0"
    by (simp_all add: demoWalkEnd_def demoWalk_def)
  from fetchLoop_terminates [of demoEnv demoWalk] ne
  have "walkMeasure demoEnv (fetchStep demoEnv demoWalk) < walkMeasure demoEnv demoWalk"
    by blast
  with ne f demo_walk demo_walk_offline show ?thesis by simp
qed



text \<open>
  Claim C10. On a partial chain all of whose members have their signature in
  \<^verbatim>\<open>KnownIssuers\<close>, \<^verbatim>\<open>verifyChain\<close> returns true and leaves the bundler as it is,
  whatever the X.509 verifier would answer: it is not asked. So on such a chain,
  when it is not empty, an iteration of \<^verbatim>\<open>fetchIntermediates\<close> counts a found
  chain and pops the top element, whether or not the members form a path to a
  trusted root.
\<close>

theorem verifyChain_all_known:
  assumes "walk_chain w \<noteq> []"
    and "\<forall>f\<in>set (walk_chain w). Signature (Cert f) \<in> KnownIssuers (walk_b w)"
  shows "(\<forall>v. verifyChain (env\<lparr>Verify := v\<rparr>) (walk_b w) (walk_chain w) = (True, walk_b w))
       \<and> verifyChain env (walk_b w) (walk_chain w) = (True, walk_b w)
       \<and> fetchStep env w
           = w\<lparr>walk_foundChains := walk_foundChains w + 1, walk_chain := tl (walk_chain w)\<rparr>"
proof -
  have v: "verifyChain e (walk_b w) (walk_chain w) = (True, walk_b w)" for e
    unfolding verifyChain_def by (rule verifyChain_loop_known [OF assms(2)])
  from v [of env] have "fetchStep env w
      = w\<lparr>walk_foundChains := walk_foundChains w + 1, walk_chain := tl (walk_chain w)\<rparr>"
    by (simp add: fetchStep_def)
  with v show ?thesis by blast
qed

text \<open>
  The theorem at the walk on the intermediate alone, known to the bundler, with a
  verifier that rejects every certificate: a chain is found.
\<close>

theorem verifyChain_all_known_witness:
  "walk_chain demoWalkKnown \<noteq> []
   \<and> (\<lambda>f. Signature (Cert f)) ` set (walk_chain demoWalkKnown)
       \<subseteq> KnownIssuers (walk_b demoWalkKnown)
   \<and> VerifyWith demoEnvRejecting (walk_b demoWalkKnown) demoInt = Inl UnknownAuthorityError
   \<and> verifyChain demoEnvRejecting (walk_b demoWalkKnown) (walk_chain demoWalkKnown)
       = (True, walk_b demoWalkKnown)
   \<and> walk_foundChains (fetchStep demoEnvRejecting demoWalkKnown) = 1
   \<and> walk_chain (fetchStep demoEnvRejecting demoWalkKnown) = []"
proof -
  have ne: "walk_chain demoWalkKnown \<noteq> []"
    by code_simp
  have kn: "\<forall>f\<in>set (walk_chain demoWalkKnown).
         Signature (Cert f) \<in> KnownIssuers (walk_b demoWalkKnown)"
    by code_simp
  then have kn': "(\<lambda>f. Signature (Cert f)) ` set (walk_chain demoWalkKnown)
       \<subseteq> KnownIssuers (walk_b demoWalkKnown)"
    by blast
  have rej: "VerifyWith demoEnvRejecting (walk_b demoWalkKnown) demoInt
      = Inl UnknownAuthorityError"
    by code_simp
  have tl: "tl (walk_chain demoWalkKnown) = []" "walk_foundChains demoWalkKnown = 0"
    by code_simp+
  from verifyChain_all_known [OF ne kn, of demoEnvRejecting] ne kn' rej tl
  show ?thesis by simp
qed

end
